theory Spec2Isabelle
  imports
    Complex_Main
    "HOL-Library.Sublist"
    "HOL-Library.List_Lexorder"
    "HOL-Library.Char_ord"
begin

section \<open>JavaScript values, strings and errors\<close>

text \<open>
  The repositories receive plain JavaScript scalars (from a JSON body or a query string)
  and hand them to the storage layer unchanged. \<open>JNum\<close> holds a number whose value is
  an integer that JavaScript prints in plain decimal notation; fractions, \<open>NaN\<close>,
  objects and arrays are outside the model.
\<close>

datatype jsval = JUndefined | JNull | JBool bool | JNum int | JStr string

abbreviation dq :: string where "dq \<equiv> [CHR 0x22]"
abbreviation nl :: string where "nl \<equiv> [CHR 0x0A]"

text \<open>Decimal notation of a natural number, as string concatenation with a number gives it.\<close>

fun digits_of_nat :: "nat \<Rightarrow> string" where
  "digits_of_nat n =
     (if n < 10 then [''0123456789'' ! n]
      else digits_of_nat (n div 10) @ [''0123456789'' ! (n mod 10)])"

declare digits_of_nat.simps [simp del]

text \<open>The conversion a template literal \<^verbatim>\<open>`${v}`\<close> applies to \<open>v\<close>.\<close>

definition js_toString :: "jsval \<Rightarrow> string" where
  "js_toString v =
     (case v of
        JUndefined \<Rightarrow> ''undefined''
      | JNull \<Rightarrow> ''null''
      | JBool b \<Rightarrow> (if b then ''true'' else ''false'')
      | JNum n \<Rightarrow> (if n < 0 then ''-'' @ digits_of_nat (nat (- n)) else digits_of_nat (nat n))
      | JStr s \<Rightarrow> s)"

text \<open>The test \<^verbatim>\<open>if (v)\<close>.\<close>

definition js_truthy :: "jsval \<Rightarrow> bool" where
  "js_truthy v =
     (case v of
        JUndefined \<Rightarrow> False
      | JNull \<Rightarrow> False
      | JBool b \<Rightarrow> b
      | JNum n \<Rightarrow> n \<noteq> 0
      | JStr s \<Rightarrow> s \<noteq> [])"

text \<open>Reading a property of an object: one that the object lacks reads as \<open>undefined\<close>.\<close>

definition field :: "(string \<rightharpoonup> jsval) \<Rightarrow> string \<Rightarrow> jsval" where
  "field obj k = (case obj k of None \<Rightarrow> JUndefined | Some v \<Rightarrow> v)"

text \<open>\<^verbatim>\<open>Array.prototype.join\<close> on an array of strings.\<close>

fun join :: "string \<Rightarrow> string list \<Rightarrow> string" where
  "join sep [] = []"
| "join sep [x] = x"
| "join sep (x # y # ys) = x @ sep @ join sep (y # ys)"

text \<open>What the storage layer can raise. \<open>NotModelled\<close> marks a statement or a parameter
  that lies outside the fragment of SQL interpreted below.\<close>

datatype dberror =
    UniqueViolation | ForeignKeyViolation | NotNullViolation | CheckViolation | NotModelled

text \<open>
  The exceptions of the application. \<open>BadRequestErrors\<close> is a \<open>BadRequestError\<close>
  constructed with an array of messages (the schema-validation path of the routes);
  \<open>StorageError\<close> is an error of the storage layer that propagates unchanged;
  \<open>TypeError\<close> is the runtime's error for reading a property of \<open>undefined\<close>.
\<close>

datatype error =
    BadRequestError string
  | BadRequestErrors "string list"
  | NotFoundError string
  | UnauthorizedError string
  | ForbiddenError string
  | StorageError dberror
  | TypeError

text \<open>
  Modelled from the spec: the error classes (\<^verbatim>\<open>expressError.js\<close>) and the error handler
  of the application are not among the sources. The taxonomy of the specification maps
  InvalidInput and AlreadyExists (both \<open>BadRequestError\<close> in the code), NotFound,
  Unauthenticated and Forbidden to distinct client-error responses and every other
  failure to a generic server-error response; the route tests expect 400, 404, 401, 403
  and 500.
\<close>

definition error_status :: "error \<Rightarrow> nat" where
  "error_status e =
     (case e of
        BadRequestError _ \<Rightarrow> 400
      | BadRequestErrors _ \<Rightarrow> 400
      | NotFoundError _ \<Rightarrow> 404
      | UnauthorizedError _ \<Rightarrow> 401
      | ForbiddenError _ \<Rightarrow> 403
      | StorageError _ \<Rightarrow> 500
      | TypeError \<Rightarrow> 500)"

section \<open>helpers/sql.js\<close>

text \<open>
  \<open>dataToUpdate\<close> is an object; the list holds its own properties in the order of
  \<^verbatim>\<open>Object.keys\<close>, which for field names (no array-index keys) is insertion order.
  \<open>jsToSql\<close> is the object of column names; a missing or empty entry is falsy, and
  \<^verbatim>\<open>||\<close> then falls back to the field name.
\<close>

record partial_update =
  setCols :: string
  "values" :: "jsval list"

definition sqlForPartialUpdate ::
  "(string \<times> jsval) list \<Rightarrow> (string \<rightharpoonup> string) \<Rightarrow> error + partial_update" where
  "sqlForPartialUpdate dataToUpdate jsToSql =
     (let keys = map fst dataToUpdate in
      if length keys = 0 then Inl (BadRequestError ''No data'')
      else
        let cols = map (\<lambda>(idx, colName).
                      dq @ (case jsToSql colName of
                              None \<Rightarrow> colName
                            | Some c \<Rightarrow> if c = [] then colName else c)
                         @ dq @ ''=$'' @ digits_of_nat (idx + 1))
                   (enumerate 0 keys)
        in Inr \<lparr>setCols = join '', '' cols, values = map snd dataToUpdate\<rparr>)"

section \<open>models/company.js and models/job.js\<close>

text \<open>
  The repositories talk to the storage layer through \<^verbatim>\<open>db.query(text, values)\<close>. It is
  a parameter \<open>db_query\<close> here: given the statement text, the positional values and the
  state of the storage, it answers with rows or raises, and returns the new state.
  A repository function returns its outcome together with the state of the storage.
\<close>

type_synonym ('s, 'r) db_query =
  "string \<Rightarrow> jsval list \<Rightarrow> 's \<Rightarrow> (dberror + 'r list) \<times> 's"

definition Company_create_check_sql :: string where
  "Company_create_check_sql =
     ''SELECT handle''
     @ nl @ ''           FROM companies''
     @ nl @ ''           WHERE handle = $1''"

definition Company_create_insert_sql :: string where
  "Company_create_insert_sql =
     ''INSERT INTO companies''
     @ nl @ ''           (handle, name, description, num_employees, logo_url)''
     @ nl @ ''           VALUES ($1, $2, $3, $4, $5)''
     @ nl @ ''           RETURNING handle, name, description, num_employees AS '' @ dq @ ''numEmployees'' @ dq @ '', logo_url AS '' @ dq @ ''logoUrl'' @ dq"

text \<open>\<^verbatim>\<open>Company.create\<close>; the result is \<^verbatim>\<open>result.rows[0]\<close>, \<open>None\<close> when it is undefined.\<close>

definition Company_create ::
  "('s, 'r) db_query \<Rightarrow> jsval \<Rightarrow> jsval \<Rightarrow> jsval \<Rightarrow> jsval \<Rightarrow> jsval \<Rightarrow> 's
     \<Rightarrow> (error + 'r option) \<times> 's" where
  "Company_create db_query handle name description numEmployees logoUrl s =
     (case db_query Company_create_check_sql [handle] s of
        (Inl e, s1) \<Rightarrow> (Inl (StorageError e), s1)
      | (Inr duplicateCheck, s1) \<Rightarrow>
          if duplicateCheck \<noteq> []
          then (Inl (BadRequestError (''Duplicate company: '' @ js_toString handle)), s1)
          else
            (case db_query Company_create_insert_sql
                    [handle, name, description, numEmployees, logoUrl] s1 of
               (Inl e, s2) \<Rightarrow> (Inl (StorageError e), s2)
             | (Inr rows, s2) \<Rightarrow>
                 (Inr (case rows of [] \<Rightarrow> None | company # _ \<Rightarrow> Some company), s2)))"

text \<open>The local variables of \<^verbatim>\<open>findAll\<close>; the functions below return them as they are
  when the function returns or throws.\<close>

record query_locals =
  query :: string
  whereClauses :: "string list"
  queryValues :: "jsval list"

text \<open>\<^verbatim>\<open>queryValues.push(v); whereClauses.push(`<clause>$${queryValues.length}`)\<close>\<close>

definition push_filter :: "jsval \<Rightarrow> string \<Rightarrow> query_locals \<Rightarrow> query_locals" where
  "push_filter v clause l =
     (let l' = l\<lparr>queryValues := queryValues l @ [v]\<rparr>
      in l'\<lparr>whereClauses := whereClauses l' @ [clause @ digits_of_nat (length (queryValues l'))]\<rparr>)"

text \<open>\<^verbatim>\<open>if (whereClauses.length > 0) query += " WHERE " + whereClauses.join(" AND ")\<close>\<close>

definition add_where :: "query_locals \<Rightarrow> query_locals" where
  "add_where l =
     (if length (whereClauses l) > 0
      then l\<lparr>query := query l @ '' WHERE '' @ join '' AND '' (whereClauses l)\<rparr>
      else l)"

definition Company_findAll_select :: string where
  "Company_findAll_select =
     ''SELECT handle, ''
     @ nl @ ''                        name, ''
     @ nl @ ''                        description, ''
     @ nl @ ''                        num_employees AS '' @ dq @ ''numEmployees'' @ dq @ '', ''
     @ nl @ ''                        logo_url AS '' @ dq @ ''logoUrl'' @ dq @ '' ''
     @ nl @ ''                FROM companies''"

text \<open>
  \<^verbatim>\<open>Company.findAll\<close>. The numeric bounds are integers or absent (\<open>None\<close> is
  \<open>undefined\<close>), so that \<^verbatim>\<open>minEmployees > maxEmployees\<close> is the comparison of two
  numbers; \<open>name\<close> is any value.
\<close>

definition Company_findAll ::
  "('s, 'r) db_query \<Rightarrow> int option \<Rightarrow> int option \<Rightarrow> jsval \<Rightarrow> 's
     \<Rightarrow> (error + 'r list) \<times> query_locals \<times> 's" where
  "Company_findAll db_query minEmployees maxEmployees name s =
     (let l0 = \<lparr>query = Company_findAll_select, whereClauses = [], queryValues = []\<rparr>;
          l1 = (case minEmployees of
                  None \<Rightarrow> l0
                | Some n \<Rightarrow> push_filter (JNum n) ''num_employees >= $'' l0);
          l2 = (case maxEmployees of
                  None \<Rightarrow> l1
                | Some n \<Rightarrow> push_filter (JNum n) ''num_employees <= $'' l1);
          l3 = (if js_truthy name
                then push_filter (JStr (''%'' @ js_toString name @ ''%'')) ''name ILIKE $'' l2
                else l2)
      in
        if (case (minEmployees, maxEmployees) of
              (Some lo, Some hi) \<Rightarrow> lo > hi
            | _ \<Rightarrow> False)
        then (Inl (BadRequestError ''minEmployees cannot be greater than maxEmployees''), l3, s)
        else
          let l4 = add_where l3;
              l5 = l4\<lparr>query := query l4 @ '' ORDER BY name''\<rparr>
          in (case db_query (query l5) (queryValues l5) s of
                (Inl e, s') \<Rightarrow> (Inl (StorageError e), l5, s')
              | (Inr rows, s') \<Rightarrow> (Inr rows, l5, s')))"

definition Company_update_sql :: "string \<Rightarrow> string \<Rightarrow> string" where
  "Company_update_sql cols handleVarIdx =
     ''UPDATE companies ''
     @ nl @ ''                      SET '' @ cols @ '' ''
     @ nl @ ''                      WHERE handle = '' @ handleVarIdx @ '' ''
     @ nl @ ''                      RETURNING handle, ''
     @ nl @ ''                                name, ''
     @ nl @ ''                                description, ''
     @ nl @ ''                                num_employees AS '' @ dq @ ''numEmployees'' @ dq @ '', ''
     @ nl @ ''                                logo_url AS '' @ dq @ ''logoUrl'' @ dq"

definition Company_update ::
  "('s, 'r) db_query \<Rightarrow> jsval \<Rightarrow> (string \<times> jsval) list \<Rightarrow> 's \<Rightarrow> (error + 'r) \<times> 's" where
  "Company_update db_query handle data s =
     (case sqlForPartialUpdate data
             [''numEmployees'' \<mapsto> ''num_employees'', ''logoUrl'' \<mapsto> ''logo_url''] of
        Inl e \<Rightarrow> (Inl e, s)
      | Inr u \<Rightarrow>
          let handleVarIdx = ''$'' @ digits_of_nat (length (values u) + 1);
              querySql = Company_update_sql (setCols u) handleVarIdx
          in (case db_query querySql (values u @ [handle]) s of
                (Inl e, s') \<Rightarrow> (Inl (StorageError e), s')
              | (Inr rows, s') \<Rightarrow>
                  (case rows of
                     [] \<Rightarrow> (Inl (NotFoundError (''No company: '' @ js_toString handle)), s')
                   | company # _ \<Rightarrow> (Inr company, s'))))"

definition Job_create_sql :: string where
  "Job_create_sql =
     ''INSERT INTO jobs (title, salary, equity, company_handle)''
     @ nl @ ''            VALUES ($1, $2, $3, $4)''
     @ nl @ ''            RETURNING id, title, salary, equity, company_handle AS '' @ dq @ ''companyHandle'' @ dq"

definition Job_create ::
  "('s, 'r) db_query \<Rightarrow> jsval \<Rightarrow> jsval \<Rightarrow> jsval \<Rightarrow> jsval \<Rightarrow> 's
     \<Rightarrow> (error + 'r option) \<times> 's" where
  "Job_create db_query title salary equity companyHandle s =
     (case db_query Job_create_sql [title, salary, equity, companyHandle] s of
        (Inl e, s') \<Rightarrow> (Inl (StorageError e), s')
      | (Inr rows, s') \<Rightarrow> (Inr (case rows of [] \<Rightarrow> None | job # _ \<Rightarrow> Some job), s'))"

definition Job_findAll_select :: string where
  "Job_findAll_select =
     ''SELECT id, title, salary, equity,  company_handle AS '' @ dq @ ''companyHandle'' @ dq
     @ nl @ ''                    FROM jobs''"

text \<open>
  \<^verbatim>\<open>Job.findAll\<close>. \<open>minSalary\<close> is an integer or absent; \<open>title\<close> and \<open>hasEquity\<close>
  are any value. The clause for \<open>hasEquity\<close> pushes no value.
\<close>

definition Job_findAll ::
  "('s, 'r) db_query \<Rightarrow> jsval \<Rightarrow> int option \<Rightarrow> jsval \<Rightarrow> 's
     \<Rightarrow> (error + 'r list) \<times> query_locals \<times> 's" where
  "Job_findAll db_query title minSalary hasEquity s =
     (let l0 = \<lparr>query = Job_findAll_select, whereClauses = [], queryValues = []\<rparr>;
          l1 = (if title \<noteq> JUndefined
                then push_filter (JStr (''%'' @ js_toString title @ ''%'')) ''title ILIKE $'' l0
                else l0);
          l2 = (case minSalary of
                  None \<Rightarrow> l1
                | Some n \<Rightarrow> push_filter (JNum n) ''salary >= $'' l1);
          l3 = (if hasEquity = JBool True
                then l2\<lparr>whereClauses := whereClauses l2 @ [''equity > 0'']\<rparr>
                else l2);
          l4 = add_where l3;
          l5 = l4\<lparr>query := query l4 @ '' ORDER BY id''\<rparr>
      in (case db_query (query l5) (queryValues l5) s of
            (Inl e, s') \<Rightarrow> (Inl (StorageError e), l5, s')
          | (Inr results, s') \<Rightarrow> (Inr results, l5, s')))"

definition Job_update_sql :: "string \<Rightarrow> string \<Rightarrow> string" where
  "Job_update_sql cols idVarIdx =
     ''UPDATE jobs''
     @ nl @ ''                          SET '' @ cols
     @ nl @ ''                          WHERE id = '' @ idVarIdx
     @ nl @ ''                          RETURNING id,''
     @ nl @ ''                                    title,''
     @ nl @ ''                                    salary,''
     @ nl @ ''                                    equity,''
     @ nl @ ''                                    company_handle AS '' @ dq @ ''companyHandle'' @ dq"

definition Job_update ::
  "('s, 'r) db_query \<Rightarrow> jsval \<Rightarrow> (string \<times> jsval) list \<Rightarrow> 's \<Rightarrow> (error + 'r) \<times> 's" where
  "Job_update db_query id' data s =
     (case sqlForPartialUpdate data Map.empty of
        Inl e \<Rightarrow> (Inl e, s)
      | Inr u \<Rightarrow>
          let idVarIdx = ''$'' @ digits_of_nat (length (values u) + 1);
              querySql = Job_update_sql (setCols u) idVarIdx
          in (case db_query querySql (values u @ [id']) s of
                (Inl e, s') \<Rightarrow> (Inl (StorageError e), s')
              | (Inr rows, s') \<Rightarrow>
                  (case rows of
                     [] \<Rightarrow> (Inl (NotFoundError (''No job: '' @ js_toString id' @ '' found'')), s')
                   | job # _ \<Rightarrow> (Inr job, s'))))"

section \<open>routes/users.js\<close>

text \<open>The identity that the token of a request yields, \<^verbatim>\<open>res.locals.user\<close>; \<open>None\<close>
  when the request carries no valid token.\<close>

record identity =
  username :: string
  isAdmin :: bool

text \<open>
  Modelled from the spec: the middleware \<^verbatim>\<open>ensureCorrectUserOrAdmin\<close>
  (\<^verbatim>\<open>middleware/auth.js\<close>) is not among the sources. The specification's self-or-admin
  gate: the caller must be authenticated, else Unauthenticated; the identity must carry
  the admin flag or match the username of the path, else Forbidden. The messages of the
  two errors are not specified and are left empty.
\<close>

definition ensureCorrectUserOrAdmin :: "identity option \<Rightarrow> string \<Rightarrow> error + unit" where
  "ensureCorrectUserOrAdmin locals_user params_username =
     (case locals_user of
        None \<Rightarrow> Inl (UnauthorizedError [])
      | Some user \<Rightarrow>
          if isAdmin user \<or> username user = params_username then Inr ()
          else Inl (ForbiddenError []))"

text \<open>
  The handlers. A middleware that raises ends the request before the handler runs; an
  exception inside the handler goes to \<^verbatim>\<open>next(err)\<close>. The functions of
  \<^verbatim>\<open>models/user.js\<close>, the schema validator (it returns the list of validation errors,
  empty when the body is valid) and \<^verbatim>\<open>createToken\<close> are parameters.
\<close>

definition users_get ::
  "(string \<Rightarrow> 's \<Rightarrow> (error + 'u) \<times> 's) \<Rightarrow> identity option \<Rightarrow> string \<Rightarrow> 's
     \<Rightarrow> (error + 'u) \<times> 's" where
  "users_get User_get locals_user params_username s =
     (case ensureCorrectUserOrAdmin locals_user params_username of
        Inl err \<Rightarrow> (Inl err, s)
      | Inr _ \<Rightarrow>
          (case locals_user of
             None \<Rightarrow> (Inl TypeError, s)
           | Some user \<Rightarrow>
               if username user \<noteq> params_username \<and> \<not> isAdmin user
               then (Inl (ForbiddenError ''Unauthorized to view this user.''), s)
               else User_get params_username s))"

definition users_patch ::
  "('b \<Rightarrow> string list) \<Rightarrow> (string \<Rightarrow> 'b \<Rightarrow> 's \<Rightarrow> (error + 'u) \<times> 's)
     \<Rightarrow> identity option \<Rightarrow> string \<Rightarrow> 'b \<Rightarrow> 's \<Rightarrow> (error + 'u) \<times> 's" where
  "users_patch validate User_update locals_user params_username body s =
     (case ensureCorrectUserOrAdmin locals_user params_username of
        Inl err \<Rightarrow> (Inl err, s)
      | Inr _ \<Rightarrow>
          (case locals_user of
             None \<Rightarrow> (Inl TypeError, s)
           | Some user \<Rightarrow>
               if username user \<noteq> params_username \<and> \<not> isAdmin user
               then (Inl (ForbiddenError ''Unauthorized to update this user.''), s)
               else
                 let errs = validate body in
                 if errs \<noteq> [] then (Inl (BadRequestErrors errs), s)
                 else User_update params_username body s))"

text \<open>The answer of \<^verbatim>\<open>DELETE\<close> is \<^verbatim>\<open>{ deleted: username }\<close>.\<close>

definition users_delete ::
  "(string \<Rightarrow> 's \<Rightarrow> (error + unit) \<times> 's) \<Rightarrow> identity option \<Rightarrow> string \<Rightarrow> 's
     \<Rightarrow> (error + string) \<times> 's" where
  "users_delete User_remove locals_user params_username s =
     (case ensureCorrectUserOrAdmin locals_user params_username of
        Inl err \<Rightarrow> (Inl err, s)
      | Inr _ \<Rightarrow>
          (case User_remove params_username s of
             (Inl err, s') \<Rightarrow> (Inl err, s')
           | (Inr _, s') \<Rightarrow> (Inr params_username, s')))"

text \<open>
  \<^verbatim>\<open>POST /users\<close>, the open registration. The body is an object, a map from field
  names to values; \<^verbatim>\<open>{ ...req.body, isAdmin: false }\<close> is the body with the field
  \<open>isAdmin\<close> set to \<open>false\<close>. The answer is the user and the token, with status 201.
\<close>

definition users_post ::
  "((string \<rightharpoonup> jsval) \<Rightarrow> string list)
     \<Rightarrow> ((string \<rightharpoonup> jsval) \<Rightarrow> 's \<Rightarrow> (error + 'u) \<times> 's)
     \<Rightarrow> ('u \<Rightarrow> string) \<Rightarrow> (string \<rightharpoonup> jsval) \<Rightarrow> 's
     \<Rightarrow> (error + 'u \<times> string) \<times> 's" where
  "users_post validate User_register createToken body s =
     (let errs = validate body in
      if errs \<noteq> [] then (Inl (BadRequestErrors errs), s)
      else
        (case User_register (body(''isAdmin'' \<mapsto> JBool False)) s of
           (Inl err, s') \<Rightarrow> (Inl err, s')
         | (Inr user, s') \<Rightarrow> (Inr (user, createToken user), s')))"

section \<open>The storage layer\<close>

text \<open>
  Modelled from the spec: the storage collaborator (\<^verbatim>\<open>db.js\<close> over PostgreSQL and the
  schema of the database) is not among the sources. It accepts a parameterised statement
  and returns the matched rows, and it enforces uniqueness of the keys and referential
  integrity. The tables follow the data model of the specification: a company has a
  unique handle, a name, a description, a nullable non-negative number of employees and
  a nullable logo; a job has a generated id, a title, a nullable non-negative salary, a
  nullable exact-precision equity in the range from 0 to 1 and the handle of an existing
  company; a user has a unique username, a password hash, names, an email and the admin
  flag. Integers are unbounded here.
\<close>

record company_row =
  c_handle :: string
  c_name :: string
  c_description :: string
  c_num_employees :: "int option"
  c_logo_url :: "string option"

record job_row =
  j_id :: int
  j_title :: string
  j_salary :: "int option"
  j_equity :: "rat option"
  j_company_handle :: string

record user_row =
  u_username :: jsval
  u_password :: string
  u_first_name :: jsval
  u_last_name :: jsval
  u_email :: jsval
  u_is_admin :: jsval

record db =
  companies :: "company_row list"
  jobs :: "job_row list"
  jobs_id_seq :: int
  users :: "user_row list"

text \<open>A result row: the selected columns under their result names.\<close>

datatype sqlval = SqlNull | SqlInt int | SqlNumeric rat | SqlText string

type_synonym sqlrow = "(string \<times> sqlval) list"

definition sql_int :: "int option \<Rightarrow> sqlval" where
  "sql_int v = (case v of None \<Rightarrow> SqlNull | Some n \<Rightarrow> SqlInt n)"

definition sql_numeric :: "rat option \<Rightarrow> sqlval" where
  "sql_numeric v = (case v of None \<Rightarrow> SqlNull | Some q \<Rightarrow> SqlNumeric q)"

definition sql_text :: "string option \<Rightarrow> sqlval" where
  "sql_text v = (case v of None \<Rightarrow> SqlNull | Some t \<Rightarrow> SqlText t)"

definition company_result :: "company_row \<Rightarrow> sqlrow" where
  "company_result c =
     [(''handle'', SqlText (c_handle c)),
      (''name'', SqlText (c_name c)),
      (''description'', SqlText (c_description c)),
      (''numEmployees'', sql_int (c_num_employees c)),
      (''logoUrl'', sql_text (c_logo_url c))]"

definition job_result :: "job_row \<Rightarrow> sqlrow" where
  "job_result j =
     [(''id'', SqlInt (j_id j)),
      (''title'', SqlText (j_title j)),
      (''salary'', sql_int (j_salary j)),
      (''equity'', sql_numeric (j_equity j)),
      (''companyHandle'', SqlText (j_company_handle j))]"

subsection \<open>Reading text\<close>

fun strip_prefix :: "string \<Rightarrow> string \<Rightarrow> string option" where
  "strip_prefix [] s = Some s"
| "strip_prefix (p # ps) [] = None"
| "strip_prefix (p # ps) (c # cs) = (if p = c then strip_prefix ps cs else None)"

fun split_on_char :: "char \<Rightarrow> string \<Rightarrow> string list" where
  "split_on_char d [] = [[]]"
| "split_on_char d (c # cs) =
     (if c = d then [] # split_on_char d cs
      else (case split_on_char d cs of
              [] \<Rightarrow> [[c]]
            | w # ws \<Rightarrow> (c # w) # ws))"

text \<open>The words of a text, separated by blanks.\<close>

definition tokens :: "string \<Rightarrow> string list" where
  "tokens s = filter (\<lambda>w. w \<noteq> []) (split_on_char CHR '' '' s)"

definition digit_val :: "char \<Rightarrow> nat option" where
  "digit_val c = map_of (zip ''0123456789'' [0, 1, 2, 3, 4, 5, 6, 7, 8, 9]) c"

fun parse_digits :: "nat \<Rightarrow> string \<Rightarrow> nat option" where
  "parse_digits a [] = Some a"
| "parse_digits a (c # cs) =
     (case digit_val c of None \<Rightarrow> None | Some d \<Rightarrow> parse_digits (10 * a + d) cs)"

definition parse_nat :: "string \<Rightarrow> nat option" where
  "parse_nat s = (if s = [] then None else parse_digits 0 s)"

text \<open>A decimal literal: digits, and optionally a point and more digits.\<close>

definition parse_decimal :: "string \<Rightarrow> rat option" where
  "parse_decimal s =
     (let ip = takeWhile (\<lambda>c. c \<noteq> CHR ''.'') s;
          fp = dropWhile (\<lambda>c. c \<noteq> CHR ''.'') s
      in case (parse_nat ip, fp) of
           (None, _) \<Rightarrow> None
         | (Some i, []) \<Rightarrow> Some (of_nat i)
         | (Some i, _ # ds) \<Rightarrow>
             (case parse_nat ds of
                None \<Rightarrow> None
              | Some f \<Rightarrow> Some (of_nat i + of_nat f / 10 ^ length ds)))"

subsection \<open>Patterns\<close>

text \<open>
  Modelled from the spec: the case-insensitive pattern operator of the string filters
  (PostgreSQL's \<open>ILIKE\<close>). In \<open>LIKE\<close>, \<open>%\<close> stands for any text, \<open>_\<close> for any character, and a backslash takes
  the next character literally. A pattern that ends in a lone backslash is an error in
  PostgreSQL and matches nothing here; the repositories send patterns that end in \<open>%\<close>.
  \<open>ILIKE\<close> compares without regard to the case of the ASCII letters.
\<close>

fun like_match :: "string \<Rightarrow> string \<Rightarrow> bool" where
  "like_match [] s = (s = [])"
| "like_match (p # ps) s =
     (if p = CHR ''%'' then
        like_match ps s \<or> (case s of [] \<Rightarrow> False | _ # s' \<Rightarrow> like_match (p # ps) s')
      else if p = CHR ''_'' then
        (case s of [] \<Rightarrow> False | _ # s' \<Rightarrow> like_match ps s')
      else if p = CHR 0x5C then
        (case ps of
           [] \<Rightarrow> False
         | q # qs \<Rightarrow> (case s of [] \<Rightarrow> False | c # s' \<Rightarrow> c = q \<and> like_match qs s'))
      else (case s of [] \<Rightarrow> False | c # s' \<Rightarrow> c = p \<and> like_match ps s'))"

definition ascii_lower :: "char \<Rightarrow> char" where
  "ascii_lower c =
     (case map_of (zip ''ABCDEFGHIJKLMNOPQRSTUVWXYZ'' ''abcdefghijklmnopqrstuvwxyz'') c of
        None \<Rightarrow> c
      | Some d \<Rightarrow> d)"

definition ilike :: "string \<Rightarrow> string \<Rightarrow> bool" where
  "ilike subject pattern = like_match (map ascii_lower pattern) (map ascii_lower subject)"

text \<open>A value without the characters that a pattern reads specially.\<close>

definition literal :: "string \<Rightarrow> bool" where
  "literal v = list_all (\<lambda>c. c \<noteq> CHR ''%'' \<and> c \<noteq> CHR ''_'' \<and> c \<noteq> CHR 0x5C) v"

subsection \<open>Parameters\<close>

text \<open>
  Modelled from the spec: how the storage layer reads the positional values. The driver
  sends \<open>null\<close> and \<open>undefined\<close> as NULL and every other value as its text.
  A text column takes the text as it is. For an integer the model reads a JavaScript
  number, for the exact-precision equity a number or a decimal literal; any other value
  where a number is expected is outside the model.
\<close>

definition param_text :: "jsval \<Rightarrow> string option" where
  "param_text v =
     (case v of JUndefined \<Rightarrow> None | JNull \<Rightarrow> None | _ \<Rightarrow> Some (js_toString v))"

definition param_int :: "jsval \<Rightarrow> dberror + int option" where
  "param_int v =
     (case v of
        JUndefined \<Rightarrow> Inr None
      | JNull \<Rightarrow> Inr None
      | JNum n \<Rightarrow> Inr (Some n)
      | _ \<Rightarrow> Inl NotModelled)"

definition param_numeric :: "jsval \<Rightarrow> dberror + rat option" where
  "param_numeric v =
     (case v of
        JUndefined \<Rightarrow> Inr None
      | JNull \<Rightarrow> Inr None
      | JNum n \<Rightarrow> Inr (Some (of_int n))
      | JStr t \<Rightarrow> (case parse_decimal t of None \<Rightarrow> Inl NotModelled | Some q \<Rightarrow> Inr (Some q))
      | JBool _ \<Rightarrow> Inl NotModelled)"

subsection \<open>Conditions of a WHERE clause\<close>

text \<open>
  Modelled from the spec: the predicates of the filters as the storage layer reads them.
  A condition is a column, a comparison and an operand, which is a positional parameter
  or a number; conditions are joined by \<open>AND\<close>. A comparison with NULL on either side
  does not hold, so the row is not selected.
\<close>

datatype cmp = CmpGe | CmpLe | CmpGt | CmpILike

datatype operand = Param nat | Literal nat

type_synonym cond = "string \<times> cmp \<times> operand"

definition parse_cmp :: "string \<Rightarrow> cmp option" where
  "parse_cmp w =
     (if w = ''>='' then Some CmpGe
      else if w = ''<='' then Some CmpLe
      else if w = ''>'' then Some CmpGt
      else if w = ''ILIKE'' then Some CmpILike
      else None)"

definition parse_operand :: "string \<Rightarrow> operand option" where
  "parse_operand w =
     (case w of
        [] \<Rightarrow> None
      | c # cs \<Rightarrow>
          if c = CHR ''$'' then map_option Param (parse_nat cs)
          else map_option Literal (parse_nat w))"

fun parse_conds :: "string list \<Rightarrow> (cond list \<times> string list) option" where
  "parse_conds (col # opr # arg # ts) =
     (case (parse_cmp opr, parse_operand arg) of
        (Some c, Some a) \<Rightarrow>
          (case ts of
             [] \<Rightarrow> Some ([(col, c, a)], [])
           | w # ws \<Rightarrow>
               if w = ''AND'' then
                 (case parse_conds ws of
                    None \<Rightarrow> None
                  | Some (cs, r) \<Rightarrow> Some ((col, c, a) # cs, r))
               else Some ([(col, c, a)], ts))
      | _ \<Rightarrow> None)"
| "parse_conds _ = None"

text \<open>What follows the select list and the table: an optional \<open>WHERE\<close> with its
  conditions, and the rest (the ordering).\<close>

definition parse_tail :: "string list \<Rightarrow> (cond list \<times> string list) option" where
  "parse_tail ts =
     (case ts of
        [] \<Rightarrow> Some ([], [])
      | w # ws \<Rightarrow> if w = ''WHERE'' then parse_conds ws else Some ([], ts))"

definition operand_value :: "jsval list \<Rightarrow> operand \<Rightarrow> jsval option" where
  "operand_value vals a =
     (case a of
        Literal n \<Rightarrow> Some (JNum (int n))
      | Param k \<Rightarrow> if 1 \<le> k \<and> k \<le> length vals then Some (vals ! (k - 1)) else None)"

fun cmp_holds :: "cmp \<Rightarrow> rat \<Rightarrow> rat \<Rightarrow> bool" where
  "cmp_holds CmpGe y x = (y \<ge> x)"
| "cmp_holds CmpLe y x = (y \<le> x)"
| "cmp_holds CmpGt y x = (y > x)"
| "cmp_holds CmpILike y x = False"

text \<open>The predicate on rows that a condition stands for; \<open>text_col\<close> and \<open>num_col\<close>
  give the text and the numeric columns of the table by name.\<close>

definition cond_pred ::
  "(string \<Rightarrow> ('row \<Rightarrow> string option) option) \<Rightarrow> (string \<Rightarrow> ('row \<Rightarrow> rat option) option)
     \<Rightarrow> jsval list \<Rightarrow> cond \<Rightarrow> dberror + ('row \<Rightarrow> bool)" where
  "cond_pred text_col num_col vals cnd =
     (case cnd of (col, c, a) \<Rightarrow>
        (case operand_value vals a of
           None \<Rightarrow> Inl NotModelled
         | Some v \<Rightarrow>
             (case c of
                CmpILike \<Rightarrow>
                  (case text_col col of
                     None \<Rightarrow> Inl NotModelled
                   | Some get \<Rightarrow>
                       (case param_text v of
                          None \<Rightarrow> Inr (\<lambda>r. False)
                        | Some p \<Rightarrow>
                            Inr (\<lambda>r. case get r of None \<Rightarrow> False | Some t \<Rightarrow> ilike t p)))
              | _ \<Rightarrow>
                  (case num_col col of
                     None \<Rightarrow> Inl NotModelled
                   | Some get \<Rightarrow>
                       (case param_int v of
                          Inl e \<Rightarrow> Inl e
                        | Inr None \<Rightarrow> Inr (\<lambda>r. False)
                        | Inr (Some x) \<Rightarrow>
                            Inr (\<lambda>r. case get r of
                                       None \<Rightarrow> False
                                     | Some y \<Rightarrow> cmp_holds c y (of_int x)))))))"

fun cond_preds ::
  "(string \<Rightarrow> ('row \<Rightarrow> string option) option) \<Rightarrow> (string \<Rightarrow> ('row \<Rightarrow> rat option) option)
     \<Rightarrow> jsval list \<Rightarrow> cond list \<Rightarrow> dberror + ('row \<Rightarrow> bool) list" where
  "cond_preds text_col num_col vals [] = Inr []"
| "cond_preds text_col num_col vals (c # cs) =
     (case cond_pred text_col num_col vals c of
        Inl e \<Rightarrow> Inl e
      | Inr p \<Rightarrow>
          (case cond_preds text_col num_col vals cs of
             Inl e \<Rightarrow> Inl e
           | Inr ps \<Rightarrow> Inr (p # ps)))"

text \<open>The rows a \<open>SELECT\<close> keeps: those for which every condition holds. The statement
  must end in \<open>ORDER BY\<close> the given column.\<close>

definition select_where ::
  "(string \<Rightarrow> ('row \<Rightarrow> string option) option) \<Rightarrow> (string \<Rightarrow> ('row \<Rightarrow> rat option) option)
     \<Rightarrow> string \<Rightarrow> string list \<Rightarrow> jsval list \<Rightarrow> dberror + ('row \<Rightarrow> bool)" where
  "select_where text_col num_col order_col ts vals =
     (case parse_tail ts of
        None \<Rightarrow> Inl NotModelled
      | Some (conds, r) \<Rightarrow>
          if r \<noteq> [''ORDER'', ''BY'', order_col] then Inl NotModelled
          else
            (case cond_preds text_col num_col vals conds of
               Inl e \<Rightarrow> Inl e
             | Inr ps \<Rightarrow> Inr (\<lambda>row. list_all (\<lambda>p. p row) ps)))"

definition company_text_col :: "string \<Rightarrow> (company_row \<Rightarrow> string option) option" where
  "company_text_col col =
     (if col = ''handle'' then Some (\<lambda>c. Some (c_handle c))
      else if col = ''name'' then Some (\<lambda>c. Some (c_name c))
      else if col = ''description'' then Some (\<lambda>c. Some (c_description c))
      else if col = ''logo_url'' then Some c_logo_url
      else None)"

definition company_num_col :: "string \<Rightarrow> (company_row \<Rightarrow> rat option) option" where
  "company_num_col col =
     (if col = ''num_employees'' then Some (\<lambda>c. map_option of_int (c_num_employees c))
      else None)"

definition job_text_col :: "string \<Rightarrow> (job_row \<Rightarrow> string option) option" where
  "job_text_col col =
     (if col = ''title'' then Some (\<lambda>j. Some (j_title j))
      else if col = ''company_handle'' then Some (\<lambda>j. Some (j_company_handle j))
      else None)"

definition job_num_col :: "string \<Rightarrow> (job_row \<Rightarrow> rat option) option" where
  "job_num_col col =
     (if col = ''id'' then Some (\<lambda>j. Some (of_int (j_id j)))
      else if col = ''salary'' then Some (\<lambda>j. map_option of_int (j_salary j))
      else if col = ''equity'' then Some j_equity
      else None)"

subsection \<open>The statements\<close>

text \<open>Modelled from the spec: the explicit pre-check query of \<^verbatim>\<open>Company.create\<close>, which
  selects the handle of the companies that have the given handle.\<close>

definition select_company_handle :: "jsval list \<Rightarrow> db \<Rightarrow> (dberror + sqlrow list) \<times> db" where
  "select_company_handle vals s =
     (case vals of
        [h] \<Rightarrow>
          (Inr (map (\<lambda>c. [(''handle'', SqlText (c_handle c))])
                  (filter (\<lambda>c. param_text h = Some (c_handle c)) (companies s))), s)
      | _ \<Rightarrow> (Inl NotModelled, s))"

text \<open>Modelled from the spec: inserting a company. The values are read, then the
  constraints are checked (not null, the range of the number of employees, the unique
  handle).\<close>

definition insert_company :: "jsval list \<Rightarrow> db \<Rightarrow> (dberror + sqlrow list) \<times> db" where
  "insert_company vals s =
     (case vals of
        [h, n, d, ne, lu] \<Rightarrow>
          (case param_int ne of
             Inl e \<Rightarrow> (Inl e, s)
           | Inr ne' \<Rightarrow>
               (case (param_text h, param_text n, param_text d) of
                  (Some h', Some n', Some d') \<Rightarrow>
                    if (case ne' of None \<Rightarrow> False | Some k \<Rightarrow> k < 0)
                    then (Inl CheckViolation, s)
                    else if list_ex (\<lambda>c. c_handle c = h') (companies s)
                    then (Inl UniqueViolation, s)
                    else
                      let c = \<lparr>c_handle = h', c_name = n', c_description = d',
                               c_num_employees = ne', c_logo_url = param_text lu\<rparr>
                      in (Inr [company_result c], s\<lparr>companies := companies s @ [c]\<rparr>)
                | _ \<Rightarrow> (Inl NotNullViolation, s)))
      | _ \<Rightarrow> (Inl NotModelled, s))"

text \<open>Modelled from the spec: inserting a job. The values are read, then the
  constraints are checked (not null, the ranges of salary and equity, the reference to
  an existing company); the id is the next one of the sequence. A statement that raises
  leaves the storage as it was.\<close>

definition insert_job :: "jsval list \<Rightarrow> db \<Rightarrow> (dberror + sqlrow list) \<times> db" where
  "insert_job vals s =
     (case vals of
        [t, sal, eq, ch] \<Rightarrow>
          (case param_int sal of
             Inl e \<Rightarrow> (Inl e, s)
           | Inr sal' \<Rightarrow>
               (case param_numeric eq of
                  Inl e \<Rightarrow> (Inl e, s)
                | Inr eq' \<Rightarrow>
                    (case (param_text t, param_text ch) of
                       (Some t', Some ch') \<Rightarrow>
                         if (case sal' of None \<Rightarrow> False | Some k \<Rightarrow> k < 0)
                            \<or> (case eq' of None \<Rightarrow> False | Some q \<Rightarrow> q < 0 \<or> 1 < q)
                         then (Inl CheckViolation, s)
                         else if \<not> list_ex (\<lambda>c. c_handle c = ch') (companies s)
                         then (Inl ForeignKeyViolation, s)
                         else
                           let j = \<lparr>j_id = jobs_id_seq s, j_title = t', j_salary = sal',
                                    j_equity = eq', j_company_handle = ch'\<rparr>
                           in (Inr [job_result j],
                               s\<lparr>jobs := jobs s @ [j], jobs_id_seq := jobs_id_seq s + 1\<rparr>)
                     | _ \<Rightarrow> (Inl NotNullViolation, s))))
      | _ \<Rightarrow> (Inl NotModelled, s))"

text \<open>
  Modelled from the spec: the storage layer as the repositories call it (\<^verbatim>\<open>db.query\<close>).
  It interprets the statements of
  \<^verbatim>\<open>create\<close> and \<^verbatim>\<open>findAll\<close>: the two fixed texts of \<^verbatim>\<open>Company.create\<close>, the
  fixed text of \<^verbatim>\<open>Job.create\<close>, and a \<open>SELECT\<close> over the companies or the jobs with
  the select list of \<^verbatim>\<open>findAll\<close>, an optional \<open>WHERE\<close> and \<open>ORDER BY name\<close> or
  \<open>ORDER BY id\<close>. Strings are ordered by their characters. Every other statement is
  outside the model.
\<close>

definition pg_query :: "(db, sqlrow) db_query" where
  "pg_query text vals s =
     (if text = Company_create_check_sql then select_company_handle vals s
      else if text = Company_create_insert_sql then insert_company vals s
      else if text = Job_create_sql then insert_job vals s
      else
        (case strip_prefix Company_findAll_select text of
           Some rest \<Rightarrow>
             (case select_where company_text_col company_num_col ''name'' (tokens rest) vals of
                Inl e \<Rightarrow> (Inl e, s)
              | Inr keep \<Rightarrow>
                  (Inr (map company_result (sort_key c_name (filter keep (companies s)))), s))
         | None \<Rightarrow>
             (case strip_prefix Job_findAll_select text of
                Some rest \<Rightarrow>
                  (case select_where job_text_col job_num_col ''id'' (tokens rest) vals of
                     Inl e \<Rightarrow> (Inl e, s)
                   | Inr keep \<Rightarrow>
                       (Inr (map job_result (sort_key j_id (filter keep (jobs s)))), s))
              | None \<Rightarrow> (Inl NotModelled, s))))"

section \<open>models/user.js\<close>

text \<open>
  Modelled from the spec: \<^verbatim>\<open>User.register\<close> (\<^verbatim>\<open>models/user.js\<close>) is not among the
  sources. The specification's \<open>create\<close> of a user: an explicit check that the username
  is not taken, failing with AlreadyExists (a \<open>BadRequestError\<close>, whose message is not
  specified and is left empty); the password is stored only as a one-way hash (the
  hashing collaborator is the parameter \<open>hash\<close>); the answer is the public shape of the
  created user, the fields username, firstName, lastName, email and isAdmin as they were
  given.
\<close>

definition User_register ::
  "(jsval \<Rightarrow> string) \<Rightarrow> (string \<rightharpoonup> jsval) \<Rightarrow> db \<Rightarrow> (error + (string \<rightharpoonup> jsval)) \<times> db" where
  "User_register hash data s =
     (if list_ex (\<lambda>u. u_username u = field data ''username'') (users s)
      then (Inl (BadRequestError []), s)
      else
        (Inr [''username'' \<mapsto> field data ''username'',
              ''firstName'' \<mapsto> field data ''firstName'',
              ''lastName'' \<mapsto> field data ''lastName'',
              ''email'' \<mapsto> field data ''email'',
              ''isAdmin'' \<mapsto> field data ''isAdmin''],
         s\<lparr>users := users s @
              [\<lparr>u_username = field data ''username'',
                u_password = hash (field data ''password''),
                u_first_name = field data ''firstName'',
                u_last_name = field data ''lastName'',
                u_email = field data ''email'',
                u_is_admin = field data ''isAdmin''\<rparr>]\<rparr>))"

section \<open>What the statements of findAll select\<close>

text \<open>
  The rows that the filters stand for, in the words of the specification's filter-query
  builder and stated on the tables: a string filter compares the text with the value
  wrapped in \<open>%\<close>, by the case-insensitive pattern operator; a lower or upper bound
  holds for a value that is present and within the bound; the equity filter holds for an
  equity that is present and strictly greater than zero. The lemmas \<open>Job_findAll_rows\<close>
  and \<open>Company_findAll_rows\<close> below compare them with what the storage layer returns
  for the statements that the code builds.
\<close>

definition title_matches :: "jsval \<Rightarrow> job_row \<Rightarrow> bool" where
  "title_matches title j =
     (title = JUndefined \<or> ilike (j_title j) (''%'' @ js_toString title @ ''%''))"

definition salary_at_least :: "int option \<Rightarrow> job_row \<Rightarrow> bool" where
  "salary_at_least minSalary j =
     (case minSalary of
        None \<Rightarrow> True
      | Some n \<Rightarrow> (case j_salary j of None \<Rightarrow> False | Some y \<Rightarrow> n \<le> y))"

definition job_selected :: "jsval \<Rightarrow> int option \<Rightarrow> jsval \<Rightarrow> job_row \<Rightarrow> bool" where
  "job_selected title minSalary hasEquity j =
     (title_matches title j \<and> salary_at_least minSalary j
      \<and> (hasEquity \<noteq> JBool True \<or> (case j_equity j of None \<Rightarrow> False | Some q \<Rightarrow> 0 < q)))"

definition company_selected ::
  "int option \<Rightarrow> int option \<Rightarrow> jsval \<Rightarrow> company_row \<Rightarrow> bool" where
  "company_selected minEmployees maxEmployees name c =
     ((case minEmployees of
         None \<Rightarrow> True
       | Some n \<Rightarrow> (case c_num_employees c of None \<Rightarrow> False | Some y \<Rightarrow> n \<le> y))
      \<and> (case maxEmployees of
            None \<Rightarrow> True
          | Some n \<Rightarrow> (case c_num_employees c of None \<Rightarrow> False | Some y \<Rightarrow> y \<le> n))
      \<and> (\<not> js_truthy name \<or> ilike (c_name c) (''%'' @ js_toString name @ ''%'')))"

section \<open>Test fixtures\<close>

text \<open>A storage that answers every statement with no rows and records what it is
  sent: the state is the list of the statements issued so far.\<close>

definition log_query :: "((string \<times> jsval list) list, 'r) db_query" where
  "log_query text vals sent = (Inr [], sent @ [(text, vals)])"

text \<open>The companies and jobs that \<^verbatim>\<open>models/_testCommon.js\<close> seeds (the job sequence
  restarts at 1, so the three jobs get the ids 1 to 3), without users.\<close>

definition seed_db :: db where
  "seed_db =
     \<lparr>companies =
        [\<lparr>c_handle = ''c1'', c_name = ''C1'', c_description = ''Desc1'',
          c_num_employees = Some 1, c_logo_url = Some ''http://c1.img''\<rparr>,
         \<lparr>c_handle = ''c2'', c_name = ''C2'', c_description = ''Desc2'',
          c_num_employees = Some 2, c_logo_url = Some ''http://c2.img''\<rparr>,
         \<lparr>c_handle = ''c3'', c_name = ''C3'', c_description = ''Desc3'',
          c_num_employees = Some 3, c_logo_url = Some ''http://c3.img''\<rparr>,
         \<lparr>c_handle = ''c4'', c_name = ''C4'', c_description = ''Desc4'',
          c_num_employees = Some 4, c_logo_url = Some ''http://c4.img''\<rparr>],
      jobs =
        [\<lparr>j_id = 1, j_title = ''Retail Pharmacist'', j_salary = Some 100000,
          j_equity = Some (1 / 100), j_company_handle = ''c1''\<rparr>,
         \<lparr>j_id = 2, j_title = ''Hospital Pharmacist'', j_salary = Some 150000,
          j_equity = Some 0, j_company_handle = ''c2''\<rparr>,
         \<lparr>j_id = 3, j_title = ''Nuclear Physicist'', j_salary = Some 200000,
          j_equity = None, j_company_handle = ''c3''\<rparr>],
      jobs_id_seq = 4,
      users = []\<rparr>"

text \<open>The companies that the tests of \<^verbatim>\<open>Company.findAll\<close> seed instead.\<close>

definition specific_db :: db where
  "specific_db =
     seed_db\<lparr>companies :=
        [\<lparr>c_handle = ''c1'', c_name = ''Company One'', c_description = ''Description One'',
          c_num_employees = Some 50, c_logo_url = Some ''http://c1.img''\<rparr>,
         \<lparr>c_handle = ''c2'', c_name = ''Company Two'', c_description = ''Description Two'',
          c_num_employees = Some 200, c_logo_url = Some ''http://c2.img''\<rparr>,
         \<lparr>c_handle = ''c3'', c_name = ''Net Solutions'', c_description = ''Description Three'',
          c_num_employees = Some 30, c_logo_url = Some ''http://c3.img''\<rparr>]\<rparr>"

section \<open>The partial-update compiler\<close>




section \<open>Failing before the storage is reached\<close>

text \<open>
  C5. \<open>update\<close> with an empty payload (\<open>Company.update\<close>, and \<open>Job.update\<close> alike)
  raises \<open>BadRequestError\<close> ("No data") for every key and every storage, and the state
  of the storage is the one it started from: the check of the payload comes before any
  statement is issued, and so before the check that the key exists.
\<close>

theorem update_empty_payload:
  "Company_update db_query handle [] s = (Inl (BadRequestError ''No data''), s)
   \<and> Job_update db_query' id' [] s' = (Inl (BadRequestError ''No data''), s')"
  by (simp add: Company_update_def Job_update_def sqlForPartialUpdate_def)

text \<open>For a key that exists and for one that does not, on a storage that records the
  statements it is sent: none is.\<close>

theorem update_empty_payload_witness:
  "Company_update (log_query :: ((string \<times> jsval list) list, sqlrow) db_query)
       (JStr ''c1'') [] []
     = (Inl (BadRequestError ''No data''), [])
   \<and> Job_update (log_query :: ((string \<times> jsval list) list, sqlrow) db_query)
       (JNum 0) [] []
     = (Inl (BadRequestError ''No data''), [])"
  by (rule update_empty_payload)

text \<open>With a payload, a key that matches no row is what raises \<open>NotFoundError\<close>.\<close>

lemma Company_update_not_found:
  assumes "data \<noteq> []" and "\<And>t v. fst (db_query t v s) = Inr []"
  shows "\<exists>s'. Company_update db_query handle data s
     = (Inl (NotFoundError (''No company: '' @ js_toString handle)), s')"
proof -
  obtain u where u: "sqlForPartialUpdate data
      [''numEmployees'' \<mapsto> ''num_employees'', ''logoUrl'' \<mapsto> ''logo_url''] = Inr u"
    using assms(1) by (simp add: sqlForPartialUpdate_def Let_def)
  let ?q = "db_query (Company_update_sql (setCols u) (''$'' @ digits_of_nat (length (values u) + 1)))
              (values u @ [handle]) s"
  have "fst ?q = Inr []" by (rule assms(2))
  then obtain s' where "?q = (Inr [], s')" by (cases ?q) simp
  with u show ?thesis by (simp add: Company_update_def Let_def)
qed

text \<open>
  C2, as the code has it. When both bounds are given and the lower one is greater,
  \<open>Company.findAll\<close> raises \<open>BadRequestError\<close> with the message "minEmployees cannot
  be greater than maxEmployees", for every storage. The state of the storage is the one
  it started from (no statement was issued), and the text of the statement is still the
  bare \<open>SELECT\<close>: no \<open>WHERE\<close> clause has been appended to it. The predicates and the
  values of the filters that were supplied are in the local lists by then.
\<close>

theorem Company_findAll_bounds_check:
  "hi < lo \<Longrightarrow>
   Company_findAll db_query (Some lo) (Some hi) name s
     = (Inl (BadRequestError ''minEmployees cannot be greater than maxEmployees''),
        \<lparr>query = Company_findAll_select,
         whereClauses = [''num_employees >= $1'', ''num_employees <= $2'']
           @ (if js_truthy name then [''name ILIKE $3''] else []),
         queryValues = [JNum lo, JNum hi]
           @ (if js_truthy name then [JStr (''%'' @ js_toString name @ ''%'')] else [])\<rparr>,
        s)"
  by (simp add: Company_findAll_def Let_def push_filter_def digits_of_nat.simps)

theorem Company_findAll_bounds_check_witness:
  "(50::int) < 100 \<and>
   Company_findAll (log_query :: ((string \<times> jsval list) list, sqlrow) db_query)
       (Some 100) (Some 50) (JStr ''net'') []
     = (Inl (BadRequestError ''minEmployees cannot be greater than maxEmployees''),
        \<lparr>query = Company_findAll_select,
         whereClauses = [''num_employees >= $1'', ''num_employees <= $2'', ''name ILIKE $3''],
         queryValues = [JNum 100, JNum 50, JStr ''%net%'']\<rparr>,
        [])"
  using Company_findAll_bounds_check [of 50 100 log_query "JStr ''net''" "[]"]
  by (simp add: js_truthy_def js_toString_def)

text \<open>
  The check does not come before the predicates are built: when it raises for the
  filter \<^verbatim>\<open>{minEmployees: 100, maxEmployees: 50}\<close>, the two predicates and their values
  are already in the local lists.
\<close>

theorem Company_findAll_bounds_counterexample:
  "Company_findAll (log_query :: ((string \<times> jsval list) list, sqlrow) db_query)
       (Some 100) (Some 50) JUndefined []
     = (Inl (BadRequestError ''minEmployees cannot be greater than maxEmployees''),
        \<lparr>query = Company_findAll_select,
         whereClauses = [''num_employees >= $1'', ''num_employees <= $2''],
         queryValues = [JNum 100, JNum 50]\<rparr>,
        [])"
  by (simp add: Company_findAll_def Let_def push_filter_def js_truthy_def digits_of_nat.simps)

section \<open>The storage layer on the statements of the repositories\<close>

lemma strip_prefix_append [simp]: "strip_prefix p (p @ r) = Some r"
  by (induction p) simp_all

text \<open>The storage layer reads a placeholder back as the index that the builders wrote.\<close>

lemma parse_digits_append:
  "parse_digits a (xs @ ys) =
     (case parse_digits a xs of None \<Rightarrow> None | Some b \<Rightarrow> parse_digits b ys)"
  by (induction xs arbitrary: a) (simp_all split: option.split)

lemma digit_val_digit: "n < 10 \<Longrightarrow> digit_val (''0123456789'' ! n) = Some n"
proof -
  have "\<forall>n \<in> set [0..<10]. digit_val (''0123456789'' ! n) = Some n"
    by (simp add: upt_rec digit_val_def)
  then show "n < 10 \<Longrightarrow> digit_val (''0123456789'' ! n) = Some n" by simp
qed

lemma parse_digits_of_nat: "parse_digits 0 (digits_of_nat n) = Some n"
proof (induction n rule: digits_of_nat.induct)
  case (1 n)
  show ?case
  proof (cases "n < 10")
    case True
    then show ?thesis by (simp add: digits_of_nat.simps [of n] digit_val_digit)
  next
    case False
    then have "parse_digits 0 (digits_of_nat (n div 10)) = Some (n div 10)" by (rule 1)
    with False show ?thesis
      by (simp add: digits_of_nat.simps [of n] parse_digits_append digit_val_digit)
  qed
qed

lemma digits_of_nat_not_empty: "digits_of_nat n \<noteq> []"
  by (subst digits_of_nat.simps) simp

lemma parse_operand_placeholder: "parse_operand (''$'' @ digits_of_nat n) = Some (Param n)"
  by (simp add: parse_operand_def parse_nat_def digits_of_nat_not_empty parse_digits_of_nat)

lemma pg_query_check [simp]:
  "pg_query Company_create_check_sql vals s = select_company_handle vals s"
  by (simp add: pg_query_def)

lemma pg_query_Company_insert [simp]:
  "pg_query Company_create_insert_sql vals s = insert_company vals s"
  by (simp add: pg_query_def Company_create_insert_sql_def Company_create_check_sql_def)

lemma pg_query_Job_insert [simp]:
  "pg_query Job_create_sql vals s = insert_job vals s"
  by (simp add: pg_query_def Company_create_insert_sql_def Company_create_check_sql_def
        Job_create_sql_def)

lemma pg_query_Job_select:
  "pg_query (Job_findAll_select @ rest) vals s =
     (case select_where job_text_col job_num_col ''id'' (tokens rest) vals of
        Inl e \<Rightarrow> (Inl e, s)
      | Inr keep \<Rightarrow> (Inr (map job_result (sort_key j_id (filter keep (jobs s)))), s))"
proof -
  have a: "Job_findAll_select @ rest \<noteq> Company_create_check_sql"
    by (simp add: Job_findAll_select_def Company_create_check_sql_def)
  have b: "Job_findAll_select @ rest \<noteq> Company_create_insert_sql"
    by (simp add: Job_findAll_select_def Company_create_insert_sql_def)
  have c: "Job_findAll_select @ rest \<noteq> Job_create_sql"
    by (simp add: Job_findAll_select_def Job_create_sql_def)
  have d: "strip_prefix Company_findAll_select (Job_findAll_select @ rest) = None"
    by (simp add: Job_findAll_select_def Company_findAll_select_def)
  show ?thesis by (simp add: pg_query_def a b c d)
qed

lemma pg_query_Company_select:
  "pg_query (Company_findAll_select @ rest) vals s =
     (case select_where company_text_col company_num_col ''name'' (tokens rest) vals of
        Inl e \<Rightarrow> (Inl e, s)
      | Inr keep \<Rightarrow> (Inr (map company_result (sort_key c_name (filter keep (companies s)))), s))"
proof -
  have a: "Company_findAll_select @ rest \<noteq> Company_create_check_sql"
    by (simp add: Company_findAll_select_def Company_create_check_sql_def)
  have b: "Company_findAll_select @ rest \<noteq> Company_create_insert_sql"
    by (simp add: Company_findAll_select_def Company_create_insert_sql_def)
  have c: "Company_findAll_select @ rest \<noteq> Job_create_sql"
    by (simp add: Company_findAll_select_def Job_create_sql_def)
  show ?thesis by (simp add: pg_query_def a b c)
qed

lemmas sql_eval =
  tokens_def parse_tail_def parse_cmp_def parse_operand_def parse_nat_def digit_val_def
  select_where_def cond_pred_def operand_value_def param_text_def param_int_def
  js_toString_def

lemma digits_1 [simp]: "digits_of_nat (Suc 0) = ''1''"
  by (simp add: digits_of_nat.simps)

lemma digits_2 [simp]: "digits_of_nat (Suc (Suc 0)) = ''2''"
  by (simp add: digits_of_nat.simps)

lemma digits_3 [simp]: "digits_of_nat (Suc (Suc (Suc 0))) = ''3''"
  by (simp add: digits_of_nat.simps)

text \<open>The rows that \<open>Job.findAll\<close> returns from the storage layer: the statement it
  builds selects the jobs that the filters stand for, in the order of their ids.\<close>

lemma Job_findAll_rows:
  "fst (Job_findAll pg_query title minSalary hasEquity s)
     = Inr (map job_result (sort_key j_id (filter (job_selected title minSalary hasEquity) (jobs s))))"
  by (cases "title = JUndefined"; cases minSalary; cases "hasEquity = JBool True")
     (simp_all add: Job_findAll_def Let_def push_filter_def add_where_def pg_query_Job_select
        sql_eval job_text_col_def job_num_col_def job_selected_def title_matches_def
        salary_at_least_def fun_eq_iff
        split: option.splits jsval.splits cong: filter_cong)

text \<open>The same for \<open>Company.findAll\<close>, when the bounds are in order.\<close>

lemma Company_findAll_rows:
  "\<not> (\<exists>lo hi. minEmployees = Some lo \<and> maxEmployees = Some hi \<and> hi < lo) \<Longrightarrow>
   fst (Company_findAll pg_query minEmployees maxEmployees name s)
     = Inr (map company_result (sort_key c_name
              (filter (company_selected minEmployees maxEmployees name) (companies s))))"
  by (cases minEmployees; cases maxEmployees; cases "js_truthy name")
     (simp_all add: Company_findAll_def Let_def push_filter_def add_where_def
        pg_query_Company_select sql_eval company_text_col_def company_num_col_def
        company_selected_def fun_eq_iff
        split: option.splits cong: filter_cong)

lemma like_match_any: "like_match ''%'' t"
  by (induction t) simp_all


lemma ascii_lower_percent: "ascii_lower CHR ''%'' = CHR ''%''"
  by (simp add: ascii_lower_def)

lemma ascii_lower_special:
  "ascii_lower c = CHR ''%'' \<longleftrightarrow> c = CHR ''%''"
  "ascii_lower c = CHR ''_'' \<longleftrightarrow> c = CHR ''_''"
  "ascii_lower c = CHR 0x5C \<longleftrightarrow> c = CHR 0x5C"
  by (simp_all add: ascii_lower_def)


text \<open>For a value without special characters, the pattern operator on the wrapped
  value is the case-insensitive substring match of the specification.\<close>

lemma like_match_literal:
  "literal v \<Longrightarrow> like_match (v @ p) t \<longleftrightarrow> (\<exists>t'. t = v @ t' \<and> like_match p t')"
proof (induction v arbitrary: t)
  case Nil
  then show ?case by simp
next
  case (Cons c v)
  then have lit: "literal v" and c: "c \<noteq> CHR ''%''" "c \<noteq> CHR ''_''" "c \<noteq> CHR 0x5C"
    by (simp_all add: literal_def)
  show ?case
  proof (cases t)
    case Nil
    with c show ?thesis by simp
  next
    case (Cons d t2)
    with c Cons.IH [OF lit, of t2] show ?thesis by auto
  qed
qed

lemma like_match_percent:
  "like_match (CHR ''%'' # p) t \<longleftrightarrow> (\<exists>pre suf. t = pre @ suf \<and> like_match p suf)"
proof (induction t)
  case Nil
  then show ?case by simp
next
  case (Cons d t)
  have "like_match (CHR ''%'' # p) (d # t) \<longleftrightarrow>
          like_match p (d # t) \<or> like_match (CHR ''%'' # p) t"
    by simp
  also have "\<dots> \<longleftrightarrow> like_match p (d # t) \<or> (\<exists>pre suf. t = pre @ suf \<and> like_match p suf)"
    using Cons.IH by simp
  also have "\<dots> \<longleftrightarrow> (\<exists>pre suf. d # t = pre @ suf \<and> like_match p suf)"
  proof
    assume "like_match p (d # t) \<or> (\<exists>pre suf. t = pre @ suf \<and> like_match p suf)"
    then show "\<exists>pre suf. d # t = pre @ suf \<and> like_match p suf"
    proof
      assume "like_match p (d # t)"
      then have "d # t = [] @ (d # t) \<and> like_match p (d # t)" by simp
      then show ?thesis by blast
    next
      assume "\<exists>pre suf. t = pre @ suf \<and> like_match p suf"
      then obtain pre suf where "t = pre @ suf" "like_match p suf" by blast
      then have "d # t = (d # pre) @ suf \<and> like_match p suf" by simp
      then show ?thesis by blast
    qed
  next
    assume "\<exists>pre suf. d # t = pre @ suf \<and> like_match p suf"
    then obtain pre suf where ps: "d # t = pre @ suf" "like_match p suf" by blast
    show "like_match p (d # t) \<or> (\<exists>pre suf. t = pre @ suf \<and> like_match p suf)"
    proof (cases pre)
      case Nil
      with ps show ?thesis by simp
    next
      case (Cons e pre2)
      with ps have "t = pre2 @ suf" by simp
      with ps show ?thesis by blast
    qed
  qed
  finally show ?case .
qed

lemma like_match_contains:
  "literal v \<Longrightarrow> like_match (''%'' @ v @ ''%'') t \<longleftrightarrow> sublist v t"
proof -
  assume lit: "literal v"
  have any: "\<And>u. like_match ''%'' u"
    by (rule like_match_any)
  have "like_match (''%'' @ v @ ''%'') t \<longleftrightarrow> (\<exists>pre suf. t = pre @ suf \<and> like_match (v @ ''%'') suf)"
    using like_match_percent [of "v @ ''%''" t] by simp
  also have "\<dots> \<longleftrightarrow> (\<exists>pre suf. t = pre @ suf \<and> (\<exists>t'. suf = v @ t' \<and> like_match ''%'' t'))"
    using like_match_literal [OF lit, of "''%''"] by simp
  also have "\<dots> \<longleftrightarrow> (\<exists>pre t'. t = pre @ v @ t')"
    using any by auto
  also have "\<dots> \<longleftrightarrow> sublist v t"
    by (simp add: sublist_def)
  finally show ?thesis .
qed

lemma literal_lower: "literal v \<Longrightarrow> literal (map ascii_lower v)"
  by (simp add: literal_def list_all_iff ascii_lower_special)

lemma ilike_contains:
  "literal v \<Longrightarrow>
   ilike t (''%'' @ v @ ''%'') \<longleftrightarrow> sublist (map ascii_lower v) (map ascii_lower t)"
  using like_match_contains [OF literal_lower, of v "map ascii_lower t"]
  by (simp add: ilike_def ascii_lower_percent del: like_match.simps)

lemma no_where_company: "\<not> sublist ''WHERE'' (Company_findAll_select @ '' ORDER BY name'')"
  by (simp add: Company_findAll_select_def sublist_code)

lemma no_where_job: "\<not> sublist ''WHERE'' (Job_findAll_select @ '' ORDER BY id'')"
  by (simp add: Job_findAll_select_def sublist_code)

lemma count_dollar_company: "count_list Company_findAll_select CHR ''$'' = 0"
  by (simp add: Company_findAll_select_def)

lemma count_dollar_job: "count_list Job_findAll_select CHR ''$'' = 0"
  by (simp add: Job_findAll_select_def)

lemma job_selected_iff:
  "job_selected title minSalary hasEquity j \<longleftrightarrow>
     title_matches title j \<and> salary_at_least minSalary j
     \<and> (hasEquity = JBool True \<longrightarrow> (\<exists>q. j_equity j = Some q \<and> 0 < q))"
  by (auto simp add: job_selected_def split: option.splits)

lemma seed_job_rows:
  "fst (Job_findAll pg_query JUndefined None (JBool True) seed_db)
     = Inr [job_result \<lparr>j_id = 1, j_title = ''Retail Pharmacist'', j_salary = Some 100000,
          j_equity = Some (1 / 100), j_company_handle = ''c1''\<rparr>]"
  "fst (Job_findAll pg_query JUndefined None (JBool False) seed_db)
     = Inr (map job_result (jobs seed_db))"
  by (simp_all add: Job_findAll_rows job_selected_def title_matches_def salary_at_least_def
        seed_db_def)

text \<open>The scenarios of the model tests of \<^verbatim>\<open>findAll\<close>, on the seeded rows.\<close>

lemma seed_job_scenarios:
  "fst (Job_findAll pg_query (JStr ''nuc'') None JUndefined seed_db)
     = Inr (map job_result [jobs seed_db ! 2])"
  "fst (Job_findAll pg_query (JStr ''PHARMA'') None JUndefined seed_db)
     = Inr (map job_result [jobs seed_db ! 0, jobs seed_db ! 1])"
  "fst (Job_findAll pg_query JUndefined (Some 150000) JUndefined seed_db)
     = Inr (map job_result [jobs seed_db ! 1, jobs seed_db ! 2])"
  "fst (Job_findAll pg_query JUndefined (Some 90000) (JBool True) seed_db)
     = Inr (map job_result [jobs seed_db ! 0])"
  by (simp_all add: Job_findAll_rows job_selected_def title_matches_def salary_at_least_def
        seed_db_def ilike_def ascii_lower_def js_toString_def)

lemma specific_company_scenarios:
  "fst (Company_findAll pg_query None None JUndefined specific_db)
     = Inr (map company_result (companies specific_db))"
  "fst (Company_findAll pg_query None None (JStr ''Net'') specific_db)
     = Inr (map company_result [companies specific_db ! 2])"
  "fst (Company_findAll pg_query (Some 50) None JUndefined specific_db)
     = Inr (map company_result [companies specific_db ! 0, companies specific_db ! 1])"
  "fst (Company_findAll pg_query None (Some 50) JUndefined specific_db)
     = Inr (map company_result [companies specific_db ! 0, companies specific_db ! 2])"
  "fst (Company_findAll pg_query (Some 30) (Some 100) JUndefined specific_db)
     = Inr (map company_result [companies specific_db ! 0, companies specific_db ! 2])"
  "fst (Company_findAll pg_query (Some 50) (Some 100) JUndefined specific_db)
     = Inr (map company_result [companies specific_db ! 0])"
  by (simp_all add: Company_findAll_rows company_selected_def specific_db_def seed_db_def
        js_truthy_def ilike_def ascii_lower_def js_toString_def)

section \<open>create\<close>

text \<open>
  C6. \<open>Company.create\<close> first asks the storage for a company with the handle. For
  every storage: when that statement answers a row, the call raises \<open>BadRequestError\<close>
  ("Duplicate company: " and the handle) and sends no other statement, so a storage that
  a query does not change is in the state it started from. On the tables of the storage
  layer: when a company with the handle exists (the handle taken as the storage reads
  it, \<open>param_text\<close>), the call raises that error and no row is overwritten or added.
\<close>

theorem Company_create_duplicate:
  "(db_query Company_create_check_sql [handle] s = (Inr rows, s) \<and> rows \<noteq> [] \<longrightarrow>
      Company_create db_query handle name description numEmployees logoUrl s
        = (Inl (BadRequestError (''Duplicate company: '' @ js_toString handle)), s))
   \<and> (c \<in> set (companies d) \<and> param_text handle = Some (c_handle c) \<longrightarrow>
        Company_create pg_query handle name description numEmployees logoUrl d
          = (Inl (BadRequestError (''Duplicate company: '' @ c_handle c)), d))"
  by (auto simp add: Company_create_def select_company_handle_def param_text_def
        filter_empty_conv split: jsval.splits)

text \<open>The handle \<^verbatim>\<open>c1\<close> of the seeded companies.\<close>

theorem Company_create_duplicate_witness:
  "\<lparr>c_handle = ''c1'', c_name = ''C1'', c_description = ''Desc1'',
     c_num_employees = Some 1, c_logo_url = Some ''http://c1.img''\<rparr> \<in> set (companies seed_db)
   \<and> param_text (JStr ''c1'') = Some ''c1''
   \<and> pg_query Company_create_check_sql [JStr ''c1''] seed_db
       = (Inr [[(''handle'', SqlText ''c1'')]], seed_db)
   \<and> Company_create pg_query (JStr ''c1'') (JStr ''New'') (JStr ''New Description'') (JNum 1)
         (JStr ''http://new.img'') seed_db
       = (Inl (BadRequestError ''Duplicate company: c1''), seed_db)"
proof -
  let ?c = "\<lparr>c_handle = ''c1'', c_name = ''C1'', c_description = ''Desc1'',
          c_num_employees = Some 1, c_logo_url = Some ''http://c1.img''\<rparr>"
  have mem: "?c \<in> set (companies seed_db)" by (simp add: seed_db_def)
  have ptx: "param_text (JStr ''c1'') = Some (c_handle ?c)"
    by (simp add: param_text_def js_toString_def)
  have chk: "pg_query Company_create_check_sql [JStr ''c1''] seed_db
       = (Inr [[(''handle'', SqlText ''c1'')]], seed_db)"
    by (simp add: select_company_handle_def param_text_def js_toString_def seed_db_def)
  note th = Company_create_duplicate
    [of pg_query "JStr ''c1''" seed_db "[[(''handle'', SqlText ''c1'')]]"
        "JStr ''New''" "JStr ''New Description''" "JNum 1" "JStr ''http://new.img''" ?c seed_db]
  from th chk have a: "Company_create pg_query (JStr ''c1'') (JStr ''New'') (JStr ''New Description'')
      (JNum 1) (JStr ''http://new.img'') seed_db
       = (Inl (BadRequestError (''Duplicate company: '' @ js_toString (JStr ''c1''))), seed_db)"
    by blast
  from th mem ptx have b: "Company_create pg_query (JStr ''c1'') (JStr ''New'') (JStr ''New Description'')
      (JNum 1) (JStr ''http://new.img'') seed_db
       = (Inl (BadRequestError (''Duplicate company: '' @ c_handle ?c)), seed_db)"
    by blast
  from mem ptx chk b show ?thesis by simp
qed

text \<open>A handle that is not taken is inserted (the first scenario of the model's tests).\<close>

lemma Company_create_new:
  "Company_create pg_query (JStr ''new'') (JStr ''New'') (JStr ''New Description'') (JNum 1)
       (JStr ''http://new.img'') seed_db
     = (Inr (Some [(''handle'', SqlText ''new''), (''name'', SqlText ''New''),
                   (''description'', SqlText ''New Description''),
                   (''numEmployees'', SqlInt 1), (''logoUrl'', SqlText ''http://new.img'')]),
        seed_db\<lparr>companies := companies seed_db @
           [\<lparr>c_handle = ''new'', c_name = ''New'', c_description = ''New Description'',
             c_num_employees = Some 1, c_logo_url = Some ''http://new.img''\<rparr>]\<rparr>)"
  by (simp add: Company_create_def select_company_handle_def insert_company_def param_text_def
        param_int_def js_toString_def seed_db_def company_result_def sql_int_def sql_text_def)

text \<open>
  C7. \<open>Job.create\<close> passes the error of the storage layer on as it is: for a company
  handle that resolves to no company the caller gets the foreign-key violation, which
  is no \<open>BadRequestError\<close> and maps to the status 500.
\<close>

theorem Job_create_missing_company:
  "Job_create pg_query (JStr ''New Job'') (JNum 180000) (JStr ''0.1'') (JStr ''nope'') seed_db
     = (Inl (StorageError ForeignKeyViolation), seed_db)
   \<and> error_status (StorageError ForeignKeyViolation) = 500"
  by (simp add: Job_create_def insert_job_def param_text_def param_int_def param_numeric_def
        parse_decimal_def parse_nat_def digit_val_def js_toString_def seed_db_def error_status_def)

text \<open>Whatever the storage layer does, \<open>Job.create\<close> raises no \<open>BadRequestError\<close>.\<close>

lemma Job_create_never_bad_request:
  "fst (Job_create db_query title salary equity companyHandle s) \<noteq> Inl (BadRequestError m)"
  by (simp add: Job_create_def split: prod.splits sum.splits)

section \<open>findAll\<close>

text \<open>The local variables of the two builders when they return or throw.\<close>

lemma Company_findAll_locals:
  "fst (snd (Company_findAll db_query minEmployees maxEmployees name s)) =
     (let l0 = \<lparr>query = Company_findAll_select, whereClauses = [], queryValues = []\<rparr>;
          l1 = (case minEmployees of None \<Rightarrow> l0
                | Some n \<Rightarrow> push_filter (JNum n) ''num_employees >= $'' l0);
          l2 = (case maxEmployees of None \<Rightarrow> l1
                | Some n \<Rightarrow> push_filter (JNum n) ''num_employees <= $'' l1);
          l3 = (if js_truthy name
                then push_filter (JStr (''%'' @ js_toString name @ ''%'')) ''name ILIKE $'' l2
                else l2)
      in if (\<exists>lo hi. minEmployees = Some lo \<and> maxEmployees = Some hi \<and> hi < lo) then l3
         else (add_where l3)\<lparr>query := query (add_where l3) @ '' ORDER BY name''\<rparr>)"
  by (cases minEmployees; cases maxEmployees)
     (simp_all add: Company_findAll_def Let_def split: prod.splits sum.splits)

lemma Job_findAll_locals:
  "fst (snd (Job_findAll db_query title minSalary hasEquity s)) =
     (let l0 = \<lparr>query = Job_findAll_select, whereClauses = [], queryValues = []\<rparr>;
          l1 = (if title \<noteq> JUndefined
                then push_filter (JStr (''%'' @ js_toString title @ ''%'')) ''title ILIKE $'' l0
                else l0);
          l2 = (case minSalary of None \<Rightarrow> l1
                | Some n \<Rightarrow> push_filter (JNum n) ''salary >= $'' l1);
          l3 = (if hasEquity = JBool True
                then l2\<lparr>whereClauses := whereClauses l2 @ [''equity > 0'']\<rparr>
                else l2)
      in (add_where l3)\<lparr>query := query (add_where l3) @ '' ORDER BY id''\<rparr>)"
  by (simp add: Job_findAll_def Let_def split: prod.splits sum.splits)

text \<open>The constant predicate on the equity is among the conditions exactly when the
  filter is \<open>true\<close>.\<close>

lemma Job_findAll_equity_clause:
  "(''equity > 0'' \<in> set (whereClauses (fst (snd (Job_findAll db_query title minSalary hasEquity t)))))
     = (hasEquity = JBool True)"
  by (cases minSalary)
     (simp_all add: Job_findAll_locals Let_def push_filter_def add_where_def)

text \<open>
  C3. For every storage, the statement of \<open>Job.findAll\<close> carries the condition
  \<^verbatim>\<open>equity > 0\<close> exactly when \<open>hasEquity\<close> is \<open>true\<close>. On the tables of the storage
  layer, the rows returned are rows of the jobs table; when \<open>hasEquity\<close> is \<open>true\<close>,
  every returned job has an equity that is present and strictly greater than zero; for
  every other value of \<open>hasEquity\<close> (\<open>false\<close>, absent, or anything else) a job is
  returned exactly when it passes the title and the salary filter: its equity, zero or
  null included, plays no part.
\<close>

theorem Job_findAll_hasEquity:
  "((''equity > 0'' \<in> set (whereClauses (fst (snd (Job_findAll db_query title minSalary hasEquity t)))))
      = (hasEquity = JBool True))
   \<and> (\<exists>js. fst (Job_findAll pg_query title minSalary hasEquity s) = Inr (map job_result js)
      \<and> set js \<subseteq> set (jobs s)
      \<and> (hasEquity = JBool True \<longrightarrow> (\<forall>j \<in> set js. \<exists>q. j_equity j = Some q \<and> 0 < q))
      \<and> (hasEquity \<noteq> JBool True \<longrightarrow>
            (\<forall>j \<in> set (jobs s).
               j \<in> set js \<longleftrightarrow> title_matches title j \<and> salary_at_least minSalary j)))"
proof -
  let ?js = "sort_key j_id (filter (job_selected title minSalary hasEquity) (jobs s))"
  have "fst (Job_findAll pg_query title minSalary hasEquity s) = Inr (map job_result ?js)"
    by (rule Job_findAll_rows)
  moreover have "set ?js \<subseteq> set (jobs s)" by auto
  moreover have "hasEquity = JBool True \<longrightarrow> (\<forall>j \<in> set ?js. \<exists>q. j_equity j = Some q \<and> 0 < q)"
    by (simp add: job_selected_iff)
  moreover have "hasEquity \<noteq> JBool True \<longrightarrow>
            (\<forall>j \<in> set (jobs s).
               j \<in> set ?js \<longleftrightarrow> title_matches title j \<and> salary_at_least minSalary j)"
    by (simp add: job_selected_iff)
  ultimately show ?thesis using Job_findAll_equity_clause [of db_query title minSalary hasEquity t] by blast
qed

text \<open>On the seeded jobs (equity 0.01, 0 and null): with \<open>hasEquity\<close> \<open>true\<close> only the
  first is returned, with \<open>false\<close> all three.\<close>

theorem Job_findAll_hasEquity_witness:
  "JBool True = JBool True \<and> JBool False \<noteq> JBool True
   \<and> (\<exists>js. fst (Job_findAll pg_query JUndefined None (JBool True) seed_db) = Inr (map job_result js)
        \<and> (\<forall>j \<in> set js. \<exists>q. j_equity j = Some q \<and> 0 < q))
   \<and> (\<exists>js. fst (Job_findAll pg_query JUndefined None (JBool False) seed_db) = Inr (map job_result js)
        \<and> (\<forall>j \<in> set (jobs seed_db).
               j \<in> set js \<longleftrightarrow> title_matches JUndefined j \<and> salary_at_least None j))
   \<and> fst (Job_findAll pg_query JUndefined None (JBool True) seed_db)
       = Inr [job_result \<lparr>j_id = 1, j_title = ''Retail Pharmacist'', j_salary = Some 100000,
                j_equity = Some (1 / 100), j_company_handle = ''c1''\<rparr>]
   \<and> fst (Job_findAll pg_query JUndefined None (JBool False) seed_db)
       = Inr (map job_result (jobs seed_db))"
proof -
  from Job_findAll_hasEquity [of pg_query JUndefined None "JBool True" seed_db seed_db]
  have a: "\<exists>js. fst (Job_findAll pg_query JUndefined None (JBool True) seed_db) = Inr (map job_result js)
        \<and> (\<forall>j \<in> set js. \<exists>q. j_equity j = Some q \<and> 0 < q)"
    by auto
  from Job_findAll_hasEquity [of pg_query JUndefined None "JBool False" seed_db seed_db]
  have b: "\<exists>js. fst (Job_findAll pg_query JUndefined None (JBool False) seed_db) = Inr (map job_result js)
        \<and> (\<forall>j \<in> set (jobs seed_db).
               j \<in> set js \<longleftrightarrow> title_matches JUndefined j \<and> salary_at_least None j)"
    by auto
  from a b seed_job_rows show ?thesis by simp
qed



text \<open>
  C4, as the code has it. Every applied filter contributes one predicate; the filters
  other than \<open>hasEquity\<close> contribute one value and one positional placeholder each,
  while \<open>hasEquity\<close> contributes the constant predicate \<open>equity > 0\<close>, with no value
  and no placeholder. An absent filter contributes nothing, and with no filter applied
  the statement is the bare \<open>SELECT\<close> with its \<open>ORDER BY\<close>, without \<open>WHERE\<close>. For
  \<open>Company.findAll\<close> the applied filters are the bounds that are given and a truthy
  name; for \<open>Job.findAll\<close> a title and a minimum salary other than \<open>undefined\<close>, and
  \<open>hasEquity\<close> when it is \<open>true\<close>. The text of the statement is the one issued, so
  for companies the bounds are in order.
\<close>

theorem findAll_filters_contribute:
  "(let l = fst (snd (Company_findAll db_query minEmployees maxEmployees name s));
        n = of_bool (minEmployees \<noteq> None) + of_bool (maxEmployees \<noteq> None)
              + of_bool (js_truthy name)
    in length (whereClauses l) = n \<and> length (queryValues l) = n
       \<and> (\<forall>c \<in> set (whereClauses l). count_list c CHR ''$'' = 1)
       \<and> (\<not> (\<exists>lo hi. minEmployees = Some lo \<and> maxEmployees = Some hi \<and> hi < lo) \<longrightarrow>
            count_list (query l) CHR ''$'' = n
          \<and> query l = Company_findAll_select
               @ (if n = 0 then [] else '' WHERE '' @ join '' AND '' (whereClauses l))
               @ '' ORDER BY name''
          \<and> (n = 0 \<longrightarrow> \<not> sublist ''WHERE'' (query l))))
   \<and> (let l = fst (snd (Job_findAll db_query' title minSalary hasEquity s'));
          n = of_bool (title \<noteq> JUndefined) + of_bool (minSalary \<noteq> None);
          e = of_bool (hasEquity = JBool True)
      in length (whereClauses l) = n + e \<and> length (queryValues l) = n
         \<and> count_list (query l) CHR ''$'' = n
         \<and> (\<forall>c \<in> set (whereClauses l).
               count_list c CHR ''$'' = (if c = ''equity > 0'' then 0 else 1))
         \<and> query l = Job_findAll_select
              @ (if n + e = 0 then [] else '' WHERE '' @ join '' AND '' (whereClauses l))
              @ '' ORDER BY id''
         \<and> (n + e = 0 \<longrightarrow> \<not> sublist ''WHERE'' (query l)))"
proof (intro conjI)
  show "let l = fst (snd (Company_findAll db_query minEmployees maxEmployees name s));
        n = of_bool (minEmployees \<noteq> None) + of_bool (maxEmployees \<noteq> None)
              + of_bool (js_truthy name)
    in length (whereClauses l) = n \<and> length (queryValues l) = n
       \<and> (\<forall>c \<in> set (whereClauses l). count_list c CHR ''$'' = 1)
       \<and> (\<not> (\<exists>lo hi. minEmployees = Some lo \<and> maxEmployees = Some hi \<and> hi < lo) \<longrightarrow>
            count_list (query l) CHR ''$'' = n
          \<and> query l = Company_findAll_select
               @ (if n = 0 then [] else '' WHERE '' @ join '' AND '' (whereClauses l))
               @ '' ORDER BY name''
          \<and> (n = 0 \<longrightarrow> \<not> sublist ''WHERE'' (query l)))"
    unfolding Company_findAll_locals
    by (cases minEmployees; cases maxEmployees; cases "js_truthy name")
       (simp_all add: Let_def push_filter_def add_where_def count_dollar_company no_where_company)
next
  show "let l = fst (snd (Job_findAll db_query' title minSalary hasEquity s'));
          n = of_bool (title \<noteq> JUndefined) + of_bool (minSalary \<noteq> None);
          e = of_bool (hasEquity = JBool True)
      in length (whereClauses l) = n + e \<and> length (queryValues l) = n
         \<and> count_list (query l) CHR ''$'' = n
         \<and> (\<forall>c \<in> set (whereClauses l).
               count_list c CHR ''$'' = (if c = ''equity > 0'' then 0 else 1))
         \<and> query l = Job_findAll_select
              @ (if n + e = 0 then [] else '' WHERE '' @ join '' AND '' (whereClauses l))
              @ '' ORDER BY id''
         \<and> (n + e = 0 \<longrightarrow> \<not> sublist ''WHERE'' (query l))"
    unfolding Job_findAll_locals
    by (cases "title = JUndefined"; cases minSalary; cases "hasEquity = JBool True")
       (simp_all add: Let_def push_filter_def add_where_def count_dollar_job no_where_job)
qed

text \<open>With every filter applied, and with none (an empty name is not applied).\<close>

theorem findAll_filters_contribute_witness:
  "length (whereClauses (fst (snd (Company_findAll pg_query (Some 1) (Some 2) (JStr ''c'') seed_db)))) = 3
   \<and> length (queryValues (fst (snd (Company_findAll pg_query (Some 1) (Some 2) (JStr ''c'') seed_db)))) = 3
   \<and> count_list (query (fst (snd (Company_findAll pg_query (Some 1) (Some 2) (JStr ''c'') seed_db)))) CHR ''$'' = 3
   \<and> query (fst (snd (Company_findAll pg_query None None (JStr '''') seed_db)))
       = Company_findAll_select @ '' ORDER BY name''
   \<and> \<not> sublist ''WHERE'' (query (fst (snd (Company_findAll pg_query None None (JStr '''') seed_db))))
   \<and> length (whereClauses (fst (snd (Job_findAll pg_query (JStr ''a'') (Some 1) (JBool True) seed_db)))) = 3
   \<and> length (queryValues (fst (snd (Job_findAll pg_query (JStr ''a'') (Some 1) (JBool True) seed_db)))) = 2
   \<and> count_list (query (fst (snd (Job_findAll pg_query (JStr ''a'') (Some 1) (JBool True) seed_db)))) CHR ''$'' = 2
   \<and> query (fst (snd (Job_findAll pg_query JUndefined None (JBool False) seed_db)))
       = Job_findAll_select @ '' ORDER BY id''
   \<and> \<not> sublist ''WHERE'' (query (fst (snd (Job_findAll pg_query JUndefined None (JBool False) seed_db))))"
proof -
  have a: "\<not> (\<exists>lo hi. Some (1::int) = Some lo \<and> Some (2::int) = Some hi \<and> hi < lo)" by simp
  have b: "\<not> (\<exists>lo hi. (None::int option) = Some lo \<and> (None::int option) = Some hi \<and> hi < lo)" by simp
  from findAll_filters_contribute
         [of pg_query "Some 1" "Some 2" "JStr ''c''" seed_db pg_query "JStr ''a''" "Some 1" "JBool True" seed_db] a
  have c: "length (whereClauses (fst (snd (Company_findAll pg_query (Some 1) (Some 2) (JStr ''c'') seed_db)))) = 3
   \<and> length (queryValues (fst (snd (Company_findAll pg_query (Some 1) (Some 2) (JStr ''c'') seed_db)))) = 3
   \<and> count_list (query (fst (snd (Company_findAll pg_query (Some 1) (Some 2) (JStr ''c'') seed_db)))) CHR ''$'' = 3
   \<and> length (whereClauses (fst (snd (Job_findAll pg_query (JStr ''a'') (Some 1) (JBool True) seed_db)))) = 3
   \<and> length (queryValues (fst (snd (Job_findAll pg_query (JStr ''a'') (Some 1) (JBool True) seed_db)))) = 2
   \<and> count_list (query (fst (snd (Job_findAll pg_query (JStr ''a'') (Some 1) (JBool True) seed_db)))) CHR ''$'' = 2"
    unfolding numeral_3_eq_3 numeral_2_eq_2
    by (simp (no_asm_use) add: Let_def js_truthy_def) blast
  from findAll_filters_contribute
         [of pg_query None None "JStr ''''" seed_db pg_query JUndefined None "JBool False" seed_db] b
  have d: "query (fst (snd (Company_findAll pg_query None None (JStr '''') seed_db)))
       = Company_findAll_select @ '' ORDER BY name''
   \<and> \<not> sublist ''WHERE'' (query (fst (snd (Company_findAll pg_query None None (JStr '''') seed_db))))
   \<and> query (fst (snd (Job_findAll pg_query JUndefined None (JBool False) seed_db)))
       = Job_findAll_select @ '' ORDER BY id''
   \<and> \<not> sublist ''WHERE'' (query (fst (snd (Job_findAll pg_query JUndefined None (JBool False) seed_db))))"
    by (simp (no_asm_use) add: Let_def js_truthy_def) blast
  from c d show ?thesis by blast
qed

text \<open>The filter \<^verbatim>\<open>{hasEquity: true}\<close> is applied and contributes its predicate, but no
  value and no placeholder: the statement issued has no \<open>$\<close> in it.\<close>

theorem hasEquity_no_placeholder_counterexample:
  "Job_findAll (log_query :: ((string \<times> jsval list) list, sqlrow) db_query)
       JUndefined None (JBool True) []
     = (Inr [],
        \<lparr>query = Job_findAll_select @ '' WHERE equity > 0 ORDER BY id'',
         whereClauses = [''equity > 0''],
         queryValues = []\<rparr>,
        [(Job_findAll_select @ '' WHERE equity > 0 ORDER BY id'', [])])
   \<and> count_list (Job_findAll_select @ '' WHERE equity > 0 ORDER BY id'') CHR ''$'' = 0"
  by (simp add: Job_findAll_def Let_def add_where_def log_query_def count_dollar_job)

section \<open>The routes of the users\<close>

text \<open>
  C8. On the three routes behind the self-or-admin gate (\<open>GET\<close>, \<open>PATCH\<close> and
  \<open>DELETE /users/:username\<close>), a request without a valid credential is answered with
  \<open>UnauthorizedError\<close> (status 401, which is not the status of \<open>ForbiddenError\<close>),
  whatever username the path names; the handler and the functions of the user model are
  not reached, and the state of the storage is the one the request found.
\<close>

theorem users_routes_unauthenticated:
  "users_get User_get None params_username s = (Inl (UnauthorizedError []), s)
   \<and> users_patch validate User_update None params_username body s = (Inl (UnauthorizedError []), s)
   \<and> users_delete User_remove None params_username s = (Inl (UnauthorizedError []), s)
   \<and> error_status (UnauthorizedError []) = 401
   \<and> error_status (UnauthorizedError []) \<noteq> error_status (ForbiddenError m)"
  by (simp add: users_get_def users_patch_def users_delete_def ensureCorrectUserOrAdmin_def
        error_status_def)

theorem users_routes_unauthenticated_witness:
  "users_get (\<lambda>u s. (Inr u, s)) None ''u1'' seed_db = (Inl (UnauthorizedError []), seed_db)
   \<and> users_patch (\<lambda>b. []) (\<lambda>u b s. (Inr u, s)) None ''u1'' [''firstName'' \<mapsto> JStr ''Nope''] seed_db
        = (Inl (UnauthorizedError []), seed_db)
   \<and> users_delete (\<lambda>u s. (Inr (), s\<lparr>users := []\<rparr>)) None ''u1'' seed_db
        = (Inl (UnauthorizedError []), seed_db)
   \<and> error_status (UnauthorizedError []) = 401
   \<and> error_status (UnauthorizedError []) \<noteq> error_status (ForbiddenError [])"
  by (rule users_routes_unauthenticated)

text \<open>With a credential, the gate answers by role and ownership.\<close>

lemma users_get_forbidden:
  "username user \<noteq> params_username \<Longrightarrow> \<not> isAdmin user \<Longrightarrow>
   users_get User_get (Some user) params_username s = (Inl (ForbiddenError []), s)"
  by (simp add: users_get_def ensureCorrectUserOrAdmin_def)

lemma users_get_allowed:
  "username user = params_username \<or> isAdmin user \<Longrightarrow>
   users_get User_get (Some user) params_username s = User_get params_username s"
  by (auto simp add: users_get_def ensureCorrectUserOrAdmin_def)

text \<open>What the model of \<open>User.register\<close> returns and stores is the flag it is given.\<close>

lemma User_register_isAdmin:
  "User_register hash data t = (Inr user, t') \<Longrightarrow>
   field user ''isAdmin'' = field data ''isAdmin''
   \<and> (\<exists>u \<in> set (users t'). u_username u = field data ''username''
          \<and> u_is_admin u = field data ''isAdmin'')"
  by (auto simp add: User_register_def field_def split: if_splits)

text \<open>
  C9. \<open>POST /users\<close>, whatever \<open>User.register\<close> does: two bodies that differ only in
  the field \<open>isAdmin\<close> (and are validated alike) get the same answer and leave the same
  state; the answer depends on \<open>User.register\<close> only through what it does with data
  whose \<open>isAdmin\<close> is \<open>false\<close>; and when \<open>User.register\<close> returns the flag of the
  data it is given, the user of a registration that succeeds has \<open>isAdmin\<close> \<open>false\<close>.
\<close>

theorem users_post_never_admin:
  "(validate body' = validate body \<and> (\<forall>k. k \<noteq> ''isAdmin'' \<longrightarrow> body' k = body k)
      \<longrightarrow> users_post validate register createToken body' s
          = users_post validate register createToken body s)
   \<and> ((\<forall>data. data ''isAdmin'' = Some (JBool False) \<longrightarrow> register' data = register data)
        \<longrightarrow> users_post validate register' createToken body s
            = users_post validate register createToken body s)
   \<and> ((\<forall>data t user t'. register data t = (Inr user, t') \<longrightarrow> isAdmin_of user = field data ''isAdmin'')
        \<longrightarrow> (\<forall>user token s'.
               users_post validate register createToken body s = (Inr (user, token), s')
               \<longrightarrow> isAdmin_of user = JBool False))"
proof (intro conjI impI allI)
  assume a: "validate body' = validate body \<and> (\<forall>k. k \<noteq> ''isAdmin'' \<longrightarrow> body' k = body k)"
  then have "body'(''isAdmin'' \<mapsto> JBool False) = body(''isAdmin'' \<mapsto> JBool False)"
    by (auto simp add: fun_eq_iff)
  with a show "users_post validate register createToken body' s
            = users_post validate register createToken body s"
    by (simp add: users_post_def Let_def)
next
  assume "\<forall>data. data ''isAdmin'' = Some (JBool False) \<longrightarrow> register' data = register data"
  then have "register' (body(''isAdmin'' \<mapsto> JBool False)) = register (body(''isAdmin'' \<mapsto> JBool False))"
    by simp
  then show "users_post validate register' createToken body s
            = users_post validate register createToken body s"
    by (simp add: users_post_def Let_def)
next
  fix user token s'
  assume g: "\<forall>data t user t'. register data t = (Inr user, t') \<longrightarrow> isAdmin_of user = field data ''isAdmin''"
    and r: "users_post validate register createToken body s = (Inr (user, token), s')"
  from r have "register (body(''isAdmin'' \<mapsto> JBool False)) s = (Inr user, s')"
    by (auto simp add: users_post_def Let_def split: if_splits prod.splits sum.splits)
  with g have "isAdmin_of user = field (body(''isAdmin'' \<mapsto> JBool False)) ''isAdmin''"
    by blast
  then show "isAdmin_of user = JBool False" by (simp add: field_def)
qed

text \<open>A registration that asks for the admin flag, the same one without the field, and
  one through a \<open>register\<close> that would fail on any other value of the flag; the user is
  returned and stored without the flag.\<close>

theorem users_post_never_admin_witness:
  "(\<exists>user s'.
      users_post (\<lambda>b. []) (User_register (\<lambda>p. ''hash'')) (\<lambda>u. ''token'')
          [''username'' \<mapsto> JStr ''u-new'', ''password'' \<mapsto> JStr ''password-new'',
           ''isAdmin'' \<mapsto> JBool True] seed_db
        = (Inr (user, ''token''), s')
    \<and> field user ''isAdmin'' = JBool False
    \<and> (\<exists>u \<in> set (users s'). u_username u = JStr ''u-new'' \<and> u_is_admin u = JBool False))
   \<and> users_post (\<lambda>b. []) (User_register (\<lambda>p. ''hash'')) (\<lambda>u. ''token'')
          [''username'' \<mapsto> JStr ''u-new'', ''password'' \<mapsto> JStr ''password-new''] seed_db
       = users_post (\<lambda>b. []) (User_register (\<lambda>p. ''hash'')) (\<lambda>u. ''token'')
          [''username'' \<mapsto> JStr ''u-new'', ''password'' \<mapsto> JStr ''password-new'',
           ''isAdmin'' \<mapsto> JBool True] seed_db
   \<and> users_post (\<lambda>b. [])
          (\<lambda>data s. if data ''isAdmin'' = Some (JBool False)
                     then User_register (\<lambda>p. ''hash'') data s else (Inl TypeError, s))
          (\<lambda>u. ''token'')
          [''username'' \<mapsto> JStr ''u-new'', ''password'' \<mapsto> JStr ''password-new'',
           ''isAdmin'' \<mapsto> JBool True] seed_db
       = users_post (\<lambda>b. []) (User_register (\<lambda>p. ''hash'')) (\<lambda>u. ''token'')
          [''username'' \<mapsto> JStr ''u-new'', ''password'' \<mapsto> JStr ''password-new'',
           ''isAdmin'' \<mapsto> JBool True] seed_db"
proof -
  let ?b = "[''username'' \<mapsto> JStr ''u-new'', ''password'' \<mapsto> JStr ''password-new'',
           ''isAdmin'' \<mapsto> JBool True]"
  let ?b' = "[''username'' \<mapsto> JStr ''u-new'', ''password'' \<mapsto> JStr ''password-new'']"
  let ?reg = "User_register (\<lambda>p. ''hash'')"
  let ?reg' = "\<lambda>data s. if data ''isAdmin'' = Some (JBool False)
                     then User_register (\<lambda>p. ''hash'') data s else (Inl TypeError, s)"
  let ?post = "users_post (\<lambda>b. []) ?reg (\<lambda>u. ''token'')"
  note th = users_post_never_admin
    [of "\<lambda>b. []" ?b' ?b ?reg "\<lambda>u. ''token''" seed_db ?reg' "\<lambda>user. field user ''isAdmin''"]
  obtain user s' where r: "?post ?b seed_db = (Inr (user, ''token''), s')"
    by (simp add: users_post_def User_register_def field_def seed_db_def)
  have g: "\<forall>data t user t'. ?reg data t = (Inr user, t') \<longrightarrow> field user ''isAdmin'' = field data ''isAdmin''"
    using User_register_isAdmin by blast
  from th g r have a: "field user ''isAdmin'' = JBool False" by blast
  from r have "?reg (?b(''isAdmin'' \<mapsto> JBool False)) seed_db = (Inr user, s')"
    by (auto simp add: users_post_def Let_def split: if_splits prod.splits sum.splits)
  from User_register_isAdmin [OF this]
  have b: "\<exists>u \<in> set (users s'). u_username u = JStr ''u-new'' \<and> u_is_admin u = JBool False"
    by (simp add: field_def)
  have "\<forall>k. k \<noteq> ''isAdmin'' \<longrightarrow> ?b' k = ?b k" by simp
  with th have e: "?post ?b' seed_db = ?post ?b seed_db" by blast
  have "\<forall>data. data ''isAdmin'' = Some (JBool False) \<longrightarrow> ?reg' data = ?reg data" by simp
  with th have h: "users_post (\<lambda>b. []) ?reg' (\<lambda>u. ''token'') ?b seed_db = ?post ?b seed_db"
    by blast
  from r a b e h show ?thesis by auto
qed

end
